theory Spec2Isabelle
  imports Complex_Main "HOL-Library.Word"
begin

section \<open>Strings\<close>

text \<open>
  A JavaScript string is a sequence of code units. The model uses \<open>string\<close>, whose
  characters are the code units below 256 (ASCII and the Latin-1 supplement); every
  pattern and every string literal of the monitored code is ASCII. The functions below
  are the \<open>String.prototype\<close> methods the analysis code calls.
\<close>

definition lowers :: string where "lowers = ''abcdefghijklmnopqrstuvwxyz''"
definition uppers :: string where "uppers = ''ABCDEFGHIJKLMNOPQRSTUVWXYZ''"
definition digits :: string where "digits = ''0123456789''"

definition latin1_uppers :: string where
  "latin1_uppers =
     [CHR 0xC0, CHR 0xC1, CHR 0xC2, CHR 0xC3, CHR 0xC4, CHR 0xC5, CHR 0xC6, CHR 0xC7,
      CHR 0xC8, CHR 0xC9, CHR 0xCA, CHR 0xCB, CHR 0xCC, CHR 0xCD, CHR 0xCE, CHR 0xCF,
      CHR 0xD0, CHR 0xD1, CHR 0xD2, CHR 0xD3, CHR 0xD4, CHR 0xD5, CHR 0xD6,
      CHR 0xD8, CHR 0xD9, CHR 0xDA, CHR 0xDB, CHR 0xDC, CHR 0xDD, CHR 0xDE]"

definition latin1_lowers :: string where
  "latin1_lowers =
     [CHR 0xE0, CHR 0xE1, CHR 0xE2, CHR 0xE3, CHR 0xE4, CHR 0xE5, CHR 0xE6, CHR 0xE7,
      CHR 0xE8, CHR 0xE9, CHR 0xEA, CHR 0xEB, CHR 0xEC, CHR 0xED, CHR 0xEE, CHR 0xEF,
      CHR 0xF0, CHR 0xF1, CHR 0xF2, CHR 0xF3, CHR 0xF4, CHR 0xF5, CHR 0xF6,
      CHR 0xF8, CHR 0xF9, CHR 0xFA, CHR 0xFB, CHR 0xFC, CHR 0xFD, CHR 0xFE]"

definition is_lower :: "char \<Rightarrow> bool" where "is_lower c = (c \<in> set lowers)"
definition is_upper :: "char \<Rightarrow> bool" where "is_upper c = (c \<in> set uppers)"
definition is_digit :: "char \<Rightarrow> bool" where "is_digit c = (c \<in> set digits)"

text \<open>\<open>\w\<close>: the ASCII letters, the digits and the underscore.\<close>

definition is_word_char :: "char \<Rightarrow> bool" where
  "is_word_char c = (is_lower c \<or> is_upper c \<or> is_digit c \<or> c = CHR ''_'')"

text \<open>
  \<open>\s\<close>, and what \<open>trim\<close> strips: tab, line feed, vertical tab, form feed, carriage
  return, space and the no-break space.
\<close>

definition is_space :: "char \<Rightarrow> bool" where
  "is_space c = (c \<in> set [CHR 0x09, CHR 0x0A, CHR 0x0B, CHR 0x0C, CHR 0x0D, CHR 0x20, CHR 0xA0])"

text \<open>The dot of a pattern without the \<open>s\<close> flag matches anything but a line terminator.\<close>

definition is_line_terminator :: "char \<Rightarrow> bool" where
  "is_line_terminator c = (c = CHR 0x0A \<or> c = CHR 0x0D)"

definition translate :: "string \<Rightarrow> string \<Rightarrow> char \<Rightarrow> char" where
  "translate src dst c = (case map_of (zip src dst) c of None \<Rightarrow> c | Some d \<Rightarrow> d)"

text \<open>
  Case folding of a pattern with the \<open>i\<close> flag compares canonical (upper-case)
  forms; a code unit outside ASCII never canonicalises to an ASCII one.
\<close>

definition ascii_upper :: "char \<Rightarrow> char" where
  "ascii_upper c = translate lowers uppers c"

definition ascii_lower :: "char \<Rightarrow> char" where
  "ascii_lower c = translate uppers lowers c"

definition toLowerCase :: "string \<Rightarrow> string" where
  "toLowerCase s = map (translate (uppers @ latin1_uppers) (lowers @ latin1_lowers)) s"

definition trim :: "string \<Rightarrow> string" where
  "trim s = rev (dropWhile is_space (rev (dropWhile is_space s)))"

fun startsWith :: "string \<Rightarrow> string \<Rightarrow> bool" where
  "startsWith s [] = True"
| "startsWith [] (x # xs) = False"
| "startsWith (c # cs) (x # xs) = (c = x \<and> startsWith cs xs)"

fun str_includes :: "string \<Rightarrow> string \<Rightarrow> bool" where
  "str_includes [] sub = startsWith [] sub"
| "str_includes (c # cs) sub = (startsWith (c # cs) sub \<or> str_includes cs sub)"

fun join :: "string list \<Rightarrow> string \<Rightarrow> string" where
  "join [] sep = []"
| "join [x] sep = x"
| "join (x # y # ys) sep = x @ sep @ join (y # ys) sep"

definition substring0 :: "string \<Rightarrow> nat \<Rightarrow> string" where
  "substring0 s n = take n s"

section \<open>Regular expressions\<close>

text \<open>
  The patterns of the source are regular-expression literals. They are embedded as
  values of a datatype and run by a backtracking matcher that follows the language's
  matching rules: alternatives are tried left to right, quantifiers are greedy, an
  iteration of a quantifier whose minimum is used up must consume input. Capture groups
  only group (no pattern has a back-reference). A cursor is a position in the subject:
  the code unit before it, if any, and the input that remains.
\<close>

type_synonym cursor = "char option \<times> string"

datatype citem = Ch char | Lower | Upper | Digit | Space | Word

datatype re =
    Lit string
  | Cls "citem list"
  | NCls "citem list"
  | Dot
  | WordB
  | Bol
  | Eol
  | Seq re re
  | Alt re re
  | Rep nat "nat option" re

fun citem_match :: "citem \<Rightarrow> char \<Rightarrow> bool" where
  "citem_match (Ch x) c = (c = x)"
| "citem_match Lower c = is_lower c"
| "citem_match Upper c = is_upper c"
| "citem_match Digit c = is_digit c"
| "citem_match Space c = is_space c"
| "citem_match Word c = is_word_char c"

definition cls_match :: "bool \<Rightarrow> citem list \<Rightarrow> char \<Rightarrow> bool" where
  "cls_match i its c =
     list_ex (\<lambda>it. citem_match it c \<or>
                   (i \<and> (citem_match it (ascii_upper c) \<or> citem_match it (ascii_lower c)))) its"

definition chr_eq :: "bool \<Rightarrow> char \<Rightarrow> char \<Rightarrow> bool" where
  "chr_eq i l c = (if i then ascii_upper l = ascii_upper c else l = c)"

fun lit_match :: "bool \<Rightarrow> string \<Rightarrow> cursor \<Rightarrow> cursor list" where
  "lit_match i [] cur = [cur]"
| "lit_match i (l # ls) (p, []) = []"
| "lit_match i (l # ls) (p, c # cs) = (if chr_eq i l c then lit_match i ls (Some c, cs) else [])"

fun is_word_at :: "char option \<Rightarrow> bool" where
  "is_word_at None = False"
| "is_word_at (Some c) = is_word_char c"

fun next_char :: "string \<Rightarrow> char option" where
  "next_char [] = None"
| "next_char (c # cs) = Some c"

text \<open>
  \<open>rmatch i r cur\<close> lists the cursors at which a match of \<open>r\<close> starting at \<open>cur\<close> can
  end, in the order in which backtracking tries them; the head is the match the engine
  reports. \<open>i\<close> is the ignore-case flag.
\<close>

function rmatch :: "bool \<Rightarrow> re \<Rightarrow> cursor \<Rightarrow> cursor list" where
  "rmatch i (Lit ls) cur = lit_match i ls cur"
| "rmatch i (Cls its) (p, []) = []"
| "rmatch i (Cls its) (p, c # cs) = (if cls_match i its c then [(Some c, cs)] else [])"
| "rmatch i (NCls its) (p, []) = []"
| "rmatch i (NCls its) (p, c # cs) = (if cls_match i its c then [] else [(Some c, cs)])"
| "rmatch i Dot (p, []) = []"
| "rmatch i Dot (p, c # cs) = (if is_line_terminator c then [] else [(Some c, cs)])"
| "rmatch i WordB (p, rest) =
     (if is_word_at p \<noteq> is_word_at (next_char rest) then [(p, rest)] else [])"
| "rmatch i Bol (p, rest) = (if p = None then [(p, rest)] else [])"
| "rmatch i Eol (p, rest) = (if rest = [] then [(p, rest)] else [])"
| "rmatch i (Seq a b) cur = concat (map (rmatch i b) (rmatch i a cur))"
| "rmatch i (Alt a b) cur = rmatch i a cur @ rmatch i b cur"
| "rmatch i (Rep m n r) cur =
     (if n = Some 0 then [cur]
      else concat (map (\<lambda>c'. if m = 0 \<and> \<not> length (snd c') < length (snd cur) then []
                              else rmatch i (Rep (m - 1) (map_option (\<lambda>k. k - 1) n) r) c')
                       (rmatch i r cur))
           @ (if m = 0 then [cur] else []))"
  by pat_completeness auto
termination
  by (relation "measures [\<lambda>(i, r, cur). size r,
                          \<lambda>(i, r, cur). (case r of Rep m n r' \<Rightarrow> m | _ \<Rightarrow> 0),
                          \<lambda>(i, r, cur). length (snd cur)]") auto

text \<open>
  The engine tries the start positions from the cursor rightwards and stops at the first
  one where the pattern matches. The result is the input skipped before the match and
  the cursor at the end of the match.
\<close>

fun search :: "bool \<Rightarrow> re \<Rightarrow> cursor \<Rightarrow> (string \<times> cursor) option" where
  "search i r (p, []) = (case rmatch i r (p, []) of [] \<Rightarrow> None | e # es \<Rightarrow> Some ([], e))"
| "search i r (p, c # cs) =
     (case rmatch i r (p, c # cs) of
        e # es \<Rightarrow> Some ([], e)
      | [] \<Rightarrow> (case search i r (Some c, cs) of
                 None \<Rightarrow> None
               | Some (sk, e) \<Rightarrow> Some (c # sk, e)))"

text \<open>
  A global (\<open>g\<close>) pattern that has matched leaves its \<open>lastIndex\<close> at the end of the
  match, and the next search of the same pattern object starts there.
\<close>

definition cursor_at :: "string \<Rightarrow> nat \<Rightarrow> cursor" where
  "cursor_at s n = (if n = 0 then None else Some (s ! (n - 1)), drop n s)"

record regexp =
  pat :: re
  ignoreCase :: bool
  global :: bool

definition rx :: "re \<Rightarrow> regexp" where
  "rx r = \<lparr>pat = r, ignoreCase = False, global = False\<rparr>"

definition rx_i :: "re \<Rightarrow> regexp" where
  "rx_i r = \<lparr>pat = r, ignoreCase = True, global = False\<rparr>"

definition rx_g :: "re \<Rightarrow> regexp" where
  "rx_g r = \<lparr>pat = r, ignoreCase = False, global = True\<rparr>"

definition rx_gi :: "re \<Rightarrow> regexp" where
  "rx_gi r = \<lparr>pat = r, ignoreCase = True, global = True\<rparr>"

text \<open>
  \<open>RegExp.prototype.test\<close>: the result and the pattern object's new \<open>lastIndex\<close>. A
  pattern without the \<open>g\<close> flag searches from the start and leaves \<open>lastIndex\<close> alone. A
  global pattern searches from \<open>lastIndex\<close>; a match moves \<open>lastIndex\<close> to its end, a
  failure resets it to 0.
\<close>

definition regexp_test :: "regexp \<Rightarrow> nat \<Rightarrow> string \<Rightarrow> bool \<times> nat" where
  "regexp_test re lastIndex s =
     (if \<not> global re then (search (ignoreCase re) (pat re) (None, s) \<noteq> None, lastIndex)
      else if lastIndex > length s then (False, 0)
      else (case search (ignoreCase re) (pat re) (cursor_at s lastIndex) of
              None \<Rightarrow> (False, 0)
            | Some (sk, e) \<Rightarrow> (True, length s - length (snd e))))"

text \<open>\<open>test\<close> of a pattern object without the \<open>g\<close> flag, which has no state.\<close>

definition test :: "regexp \<Rightarrow> string \<Rightarrow> bool" where
  "test re s = fst (regexp_test re 0 s)"

text \<open>
  \<open>String.prototype.replace\<close> with a global pattern replaces every match, scanning from
  the left; \<open>k\<close> counts the code units of the current match that are still to be dropped.
  After an empty match the scan moves on by one code unit.
\<close>

fun replace_from :: "bool \<Rightarrow> re \<Rightarrow> string \<Rightarrow> nat \<Rightarrow> cursor \<Rightarrow> string" where
  "replace_from i r repl k (p, []) =
     (if k = 0 then (case rmatch i r (p, []) of [] \<Rightarrow> [] | e # es \<Rightarrow> repl) else [])"
| "replace_from i r repl k (p, c # cs) =
     (if k > 0 then replace_from i r repl (k - 1) (Some c, cs)
      else (case rmatch i r (p, c # cs) of
              [] \<Rightarrow> c # replace_from i r repl 0 (Some c, cs)
            | e # es \<Rightarrow>
                (let n = length (c # cs) - length (snd e)
                 in if n = 0 then repl @ c # replace_from i r repl 0 (Some c, cs)
                    else repl @ replace_from i r repl (n - 1) (Some c, cs))))"

text \<open>
  With a pattern that has no \<open>g\<close> flag, \<open>replace\<close> replaces the first match only. (None
  of the replacement strings of the source contains a \<open>$\<close>.)
\<close>

definition str_replace :: "string \<Rightarrow> regexp \<Rightarrow> string \<Rightarrow> string" where
  "str_replace s re repl =
     (if global re then replace_from (ignoreCase re) (pat re) repl 0 (None, s)
      else (case search (ignoreCase re) (pat re) (None, s) of
              None \<Rightarrow> s
            | Some (sk, e) \<Rightarrow> sk @ repl @ snd e))"

text \<open>\<open>String.prototype.match\<close> with a pattern that has no \<open>g\<close> flag: the matched text.\<close>

definition str_match :: "string \<Rightarrow> regexp \<Rightarrow> string option" where
  "str_match s re =
     (case search (ignoreCase re) (pat re) (None, s) of
        None \<Rightarrow> None
      | Some (sk, e) \<Rightarrow> Some (take (length s - length sk - length (snd e)) (drop (length sk) s)))"

subsection \<open>Pattern syntax\<close>

definition opt :: "re \<Rightarrow> re" where "opt r = Rep 0 (Some 1) r"
definition star :: "re \<Rightarrow> re" where "star r = Rep 0 None r"
definition plus1 :: "re \<Rightarrow> re" where "plus1 r = Rep 1 None r"
definition times_n :: "nat \<Rightarrow> re \<Rightarrow> re" where "times_n n r = Rep n (Some n) r"
definition at_least :: "nat \<Rightarrow> re \<Rightarrow> re" where "at_least n r = Rep n None r"
definition between :: "nat \<Rightarrow> nat \<Rightarrow> re \<Rightarrow> re" where "between m n r = Rep m (Some n) r"

fun seqs :: "re list \<Rightarrow> re" where
  "seqs [] = Lit []"
| "seqs [r] = r"
| "seqs (r # rs) = Seq r (seqs rs)"

fun alts :: "re list \<Rightarrow> re" where
  "alts [] = Cls []"
| "alts [r] = r"
| "alts (r # rs) = Alt r (alts rs)"

definition digit :: re where "digit = Cls [Digit]"
definition wspace :: re where "wspace = Cls [Space]"
definition alnum :: re where "alnum = Cls [Lower, Upper, Digit]"
definition quote :: re where "quote = Cls [Ch (CHR 0x27), Ch (CHR 0x22)]"

section \<open>The content analyzer (AIContentAnalyzer)\<close>

subsection \<open>Patterns for detecting sensitive information\<close>

definition ssn_re :: re where
  "ssn_re = seqs [WordB, times_n 3 digit, Lit ''-'', times_n 2 digit, Lit ''-'', times_n 4 digit,
                  WordB]"

definition creditCard_re :: re where
  "creditCard_re =
     seqs [WordB, times_n 4 digit, opt (Cls [Space, Ch CHR ''-'']),
           times_n 4 digit, opt (Cls [Space, Ch CHR ''-'']),
           times_n 4 digit, opt (Cls [Space, Ch CHR ''-'']),
           times_n 4 digit, WordB]"

definition email_re :: re where
  "email_re =
     seqs [WordB,
           plus1 (Cls [Upper, Lower, Digit, Ch CHR ''.'', Ch CHR ''_'', Ch CHR ''%'', Ch CHR ''+'',
                       Ch CHR ''-'']),
           Lit ''@'',
           plus1 (Cls [Upper, Lower, Digit, Ch CHR ''.'', Ch CHR ''-'']),
           Lit ''.'',
           at_least 2 (Cls [Upper, Ch CHR ''|'', Lower]),
           WordB]"

definition phone_re :: re where
  "phone_re =
     seqs [WordB,
           opt (seqs [Lit ''+'', between 1 3 digit, opt (Cls [Ch CHR ''-'', Ch CHR '' ''])]),
           opt (Lit ''(''), times_n 3 digit, opt (Lit '')''),
           opt (Cls [Ch CHR ''-'', Ch CHR '' '']), times_n 3 digit,
           opt (Cls [Ch CHR ''-'', Ch CHR '' '']), times_n 4 digit,
           WordB]"

definition apiKey_re :: re where
  "apiKey_re =
     seqs [WordB,
           alts [seqs [Lit ''sk-'', at_least 48 alnum],
                 seqs [Lit ''AKIA'', times_n 16 (Cls [Digit, Upper])],
                 seqs [Lit ''ya29.'', plus1 (Cls [Lower, Upper, Digit, Ch CHR ''_'', Ch CHR ''-''])],
                 seqs [Lit ''AIza'', times_n 35 (Cls [Digit, Upper, Lower, Ch CHR ''_'', Ch CHR ''-''])],
                 seqs [Lit ''xoxb-'', plus1 (Cls [Digit]), Lit ''-'',
                       plus1 (Cls [Digit, Upper, Lower, Ch CHR ''-''])],
                 seqs [Lit ''ghp_'', times_n 36 alnum],
                 seqs [Lit ''gho_'', times_n 36 alnum],
                 seqs [Lit ''github_pat_'', plus1 (Cls [Lower, Upper, Digit, Ch CHR ''_''])],
                 seqs [Lit ''Bearer'', plus1 wspace,
                       plus1 (Cls [Lower, Upper, Digit, Ch CHR ''_'', Ch CHR ''-''])]],
           WordB]"

definition apiKeyGeneral_re :: re where
  "apiKeyGeneral_re =
     seqs [WordB,
           alts [seqs [Lit ''api'', opt (Cls [Ch CHR ''_'', Ch CHR ''-'']), Lit ''key''],
                 Lit ''apikey'',
                 seqs [Lit ''api'', opt (Cls [Ch CHR ''_'', Ch CHR ''-'']), Lit ''secret''],
                 seqs [Lit ''access'', opt (Cls [Ch CHR ''_'', Ch CHR ''-'']), Lit ''token''],
                 Lit ''bearer''],
           star (Cls [Ch CHR '':'', Space, Ch CHR ''='']),
           opt quote,
           at_least 16 (Cls [Lower, Upper, Digit, Ch CHR ''_'', Ch CHR ''-'']),
           opt quote,
           WordB]"

definition openaiKey_re :: re where
  "openaiKey_re = seqs [WordB, Lit ''sk-'', at_least 20 alnum, WordB]"

definition awsKey_re :: re where
  "awsKey_re =
     seqs [WordB,
           alts [seqs [Lit ''AKIA'', times_n 16 (Cls [Digit, Upper])],
                 times_n 20 (Cls [Upper, Digit])],
           WordB]"

definition password_re :: re where
  "password_re =
     seqs [WordB,
           alts [Lit ''password'', Lit ''passwd'', Lit ''pwd''],
           star (Cls [Ch CHR '':'', Space, Ch CHR ''='']),
           opt quote,
           at_least 8 (NCls [Space, Ch (CHR 0x27), Ch (CHR 0x22)]),
           opt quote,
           WordB]"

definition financialData_re :: re where
  "financialData_re =
     alts [seqs [Lit ''$'', plus1 (Cls [Digit, Ch CHR '','']), opt (Lit ''.''), star digit],
           seqs [Lit ''USD'', star wspace, plus1 (Cls [Digit, Ch CHR '',''])],
           Lit ''revenue'', Lit ''profit'', Lit ''salary'', Lit ''income'']"

definition customerData_re :: re where
  "customerData_re =
     alts [Lit ''customer'', Lit ''client'', Lit ''user'',
           seqs [Lit ''account'', star Dot, Lit ''name''],
           seqs [Lit ''billing'', star Dot, Lit ''address'']]"

definition ssn_pattern :: regexp where "ssn_pattern = rx ssn_re"
definition creditCard_pattern :: regexp where "creditCard_pattern = rx creditCard_re"
definition apiKey_pattern :: regexp where "apiKey_pattern = rx_gi apiKey_re"
definition openaiKey_pattern :: regexp where "openaiKey_pattern = rx_g openaiKey_re"

text \<open>The table, in declaration order, which is the order \<open>Object.entries\<close> walks it in.\<close>

definition sensitivePatterns :: "(string \<times> regexp) list" where
  "sensitivePatterns =
     [(''ssn'', ssn_pattern),
      (''creditCard'', creditCard_pattern),
      (''email'', rx email_re),
      (''phone'', rx phone_re),
      (''apiKey'', apiKey_pattern),
      (''apiKeyGeneral'', rx_i apiKeyGeneral_re),
      (''openaiKey'', openaiKey_pattern),
      (''awsKey'', rx_g awsKey_re),
      (''password'', rx_i password_re),
      (''financialData'', rx_i financialData_re),
      (''customerData'', rx_i customerData_re)]"

subsection \<open>AI tool detection patterns\<close>

definition aiToolPatterns :: "(string \<times> regexp) list" where
  "aiToolPatterns =
     [(''chatgpt'', rx_i (alts [Lit ''chat.openai.com'', Lit ''chatgpt''])),
      (''claude'', rx_i (alts [Lit ''claude.ai'', Lit ''anthropic''])),
      (''gemini'', rx_i (alts [Lit ''gemini.google'', Lit ''bard''])),
      (''copilot'', rx_i (alts [seqs [Lit ''github'', star Dot, Lit ''copilot''], Lit ''copilot''])),
      (''midjourney'', rx_i (Lit ''midjourney'')),
      (''perplexity'', rx_i (Lit ''perplexity.ai''))]"

subsection \<open>Prompt quality indicators\<close>

definition poor_indicators :: "regexp list" where
  "poor_indicators =
     [rx_i (seqs [Bol, alts [Lit ''help'', Lit ''fix'', Lit ''do'', Lit ''make'', Lit ''create''], Eol]),
      rx (seqs [Bol, between 0 10 Dot, Eol]),
      rx_i (seqs [Bol, alts [Lit ''what'', Lit ''how'', Lit ''why'', Lit ''when'', Lit ''where''], Eol])]"

definition good_indicators :: "regexp list" where
  "good_indicators =
     [rx_i (alts [Lit ''context'', Lit ''background'', Lit ''specifically'', Lit ''example'',
                  Lit ''format'', Lit ''style'']),
      rx_i (alts [seqs [Lit ''step'', opt Dot, Lit ''by'', opt Dot, Lit ''step''],
                  Lit ''detailed'', Lit ''comprehensive'']),
      rx_i (alts [seqs [Lit ''please'', star Dot, Lit ''explain''],
                  seqs [Lit ''can'', star Dot, Lit ''you'', star Dot, Lit ''help'', star Dot,
                        Lit ''with'']])]"

definition excellent_indicators :: "regexp list" where
  "excellent_indicators =
     [rx_i (alts [seqs [Lit ''role'', star Dot, Lit ''play''], seqs [Lit ''act'', star Dot, Lit ''as''],
                  Lit ''perspective'', Lit ''persona'']),
      rx_i (alts [Lit ''constraints'', Lit ''requirements'', Lit ''specifications'']),
      rx_i (alts [seqs [Lit ''format'', star Dot, Lit ''as''],
                  seqs [Lit ''structure'', star Dot, Lit ''like''],
                  seqs [Lit ''output'', star Dot, Lit ''should'']]),
      rx_i (alts [Lit ''avoid'', Lit ''don't'', Lit ''exclude'', Lit ''without''])]"

subsection \<open>Results\<close>

datatype riskLevel = Low | Medium | High | Critical

datatype quality = Poor | Fair | Good | Excellent

datatype suggestionType = Security | Efficiency | Quality | Alternative

datatype priority = PriorityLow | PriorityMedium | PriorityHigh

record Suggestion =
  s_type :: suggestionType
  s_title :: string
  s_description :: string
  s_actionable :: bool
  s_priority :: priority
  s_improvedPrompt :: "string option"
  s_learningResource :: "string option"
  s_canRewrite :: "bool option"

datatype learningType = Prompt_improvement | Tool_suggestion | Security_risk | Efficiency_tip

record LearningOpportunity =
  l_type :: learningType
  l_title :: string
  l_description :: string
  l_example :: "string option"
  l_resources :: "string list option"

record AnalysisResult =
  timestamp :: int
  riskLevel :: riskLevel
  sensitiveDataDetected :: bool
  sensitiveDataTypes :: "string list"
  aiToolDetected :: "string option"
  promptQuality :: quality
  suggestions :: "Suggestion list"
  learningOpportunity :: "LearningOpportunity option"

record ScreenCaptureResult =
  capture_timestamp :: int
  imageData :: string
  activeWindow :: string
  screenId :: string

record SensitiveData =
  detected :: bool
  types :: "string list"

text \<open>
  The analyzer is a singleton whose only mutable state is the \<open>lastIndex\<close> of its global
  pattern objects, kept here by the pattern's key in the table.
\<close>

type_synonym lastIndexes = "string \<Rightarrow> nat"

definition fresh :: lastIndexes where
  "fresh = (\<lambda>key. 0)"

text \<open>
  A value of type \<open>string | null\<close> is a \<open>string option\<close>; the source tests it for
  truthiness, which fails for \<open>null\<close> and for the empty string.
\<close>

definition truthy :: "string option \<Rightarrow> bool" where
  "truthy v = (case v of None \<Rightarrow> False | Some x \<Rightarrow> x \<noteq> [])"

subsection \<open>detectAITool\<close>

fun detectAITool_loop :: "(string \<times> regexp) list \<Rightarrow> string \<Rightarrow> string option" where
  "detectAITool_loop [] combinedText = None"
| "detectAITool_loop ((tool, pattern) # entries) combinedText =
     (if test pattern combinedText then Some tool else detectAITool_loop entries combinedText)"

definition detectAITool :: "string \<Rightarrow> string \<Rightarrow> string option" where
  "detectAITool windowName content =
     detectAITool_loop aiToolPatterns (toLowerCase (windowName @ '' '' @ content))"

subsection \<open>analyzeSensitiveData\<close>

fun analyzeSensitiveData_loop ::
  "(string \<times> regexp) list \<Rightarrow> string \<Rightarrow> lastIndexes \<Rightarrow> string list \<Rightarrow> string list \<times> lastIndexes" where
  "analyzeSensitiveData_loop [] text li detectedTypes = (detectedTypes, li)"
| "analyzeSensitiveData_loop ((key, pattern) # entries) text li detectedTypes =
     (case regexp_test pattern (li key) text of
        (hit, lastIndex) \<Rightarrow>
          analyzeSensitiveData_loop entries text (li(key := lastIndex))
            (if hit then detectedTypes @ [key] else detectedTypes))"

definition analyzeSensitiveData :: "lastIndexes \<Rightarrow> string \<Rightarrow> SensitiveData \<times> lastIndexes" where
  "analyzeSensitiveData li text =
     (case analyzeSensitiveData_loop sensitivePatterns text li [] of
        (detectedTypes, li') \<Rightarrow>
          (\<lparr>detected = length detectedTypes > 0, types = detectedTypes\<rparr>, li'))"

subsection \<open>analyzePromptQuality\<close>

fun any_test :: "regexp list \<Rightarrow> string \<Rightarrow> bool" where
  "any_test [] text = False"
| "any_test (pattern # patterns) text = (if test pattern text then True else any_test patterns text)"

fun count_tests :: "regexp list \<Rightarrow> string \<Rightarrow> nat \<Rightarrow> nat" where
  "count_tests [] text n = n"
| "count_tests (pattern # patterns) text n =
     count_tests patterns text (if test pattern text then n + 1 else n)"

definition analyzePromptQuality :: "string \<Rightarrow> quality" where
  "analyzePromptQuality text =
     (if any_test excellent_indicators text then Excellent
      else (let goodIndicators = count_tests good_indicators text 0
            in if goodIndicators \<ge> 2 then Good
               else if goodIndicators = 1 then Fair
               else if any_test poor_indicators text then Poor
               else if length text > 50 then Fair else Poor))"

subsection \<open>calculateRiskLevel\<close>

definition includes_elem :: "'a list \<Rightarrow> 'a \<Rightarrow> bool" where
  "includes_elem xs x = (x \<in> set xs)"

definition some_elem :: "'a list \<Rightarrow> ('a \<Rightarrow> bool) \<Rightarrow> bool" where
  "some_elem xs P = list_ex P xs"

definition calculateRiskLevel :: "bool \<Rightarrow> string list \<Rightarrow> string option \<Rightarrow> riskLevel" where
  "calculateRiskLevel hasSensitiveData sensitiveTypes tool =
     (if \<not> truthy tool then Low
      else if hasSensitiveData then
        (if some_elem sensitiveTypes (\<lambda>ty. includes_elem [''apiKey'', ''password'', ''ssn''] ty)
         then Critical
         else if some_elem sensitiveTypes
                   (\<lambda>ty. includes_elem [''financialData'', ''customerData'', ''creditCard''] ty)
         then High
         else Medium)
      else Low)"

subsection \<open>Prompt feedback (getSpecificPromptFeedback and its helpers)\<close>

definition detectAIToolFromContent :: "string \<Rightarrow> string" where
  "detectAIToolFromContent content =
     (let contentLower = toLowerCase content
      in if str_includes contentLower ''claude'' \<or> str_includes contentLower ''anthropic''
         then ''claude''
         else if str_includes contentLower ''chatgpt'' \<or> str_includes contentLower ''openai''
         then ''chatgpt''
         else if str_includes contentLower ''gemini'' \<or> str_includes contentLower ''bard''
         then ''gemini''
         else if str_includes contentLower ''copilot'' then ''copilot''
         else ''general'')"

definition getAISpecificResource :: "string \<Rightarrow> string" where
  "getAISpecificResource tool =
     (if tool = ''claude''
      then ''https://docs.anthropic.com/en/docs/build-with-claude/prompt-engineering/overview''
      else if tool = ''chatgpt''
      then ''https://platform.openai.com/docs/guides/prompt-engineering''
      else if tool = ''gemini''
      then ''https://ai.google.dev/gemini-api/docs/prompting-strategies''
      else if tool = ''copilot''
      then ''https://docs.github.com/en/copilot/using-github-copilot/prompt-engineering-for-github-copilot''
      else ''https://docs.anthropic.com/en/docs/build-with-claude/prompt-engineering/overview'')"

text \<open>The pattern literal \<open>/(claude\.ai|chatgpt|openai|anthropic)/gi\<close>, built afresh at each use.\<close>

definition vendor_names :: regexp where
  "vendor_names = rx_gi (alts [Lit ''claude.ai'', Lit ''chatgpt'', Lit ''openai'', Lit ''anthropic''])"

definition generateImprovedPrompt :: "string \<Rightarrow> string \<Rightarrow> string" where
  \<open>generateImprovedPrompt originalPrompt issueType =
     (let original = trim (str_replace originalPrompt vendor_names [])
      in if issueType = ''one-word'' then
           (if toLowerCase original = ''help''
            then ''I need help with [specific topic/task]. My current situation is [context]. I want to achieve [goal]. Please provide [step-by-step instructions/explanation/code example] in [format preference].''
            else if toLowerCase original = ''fix''
            then ''I have a problem with [specific issue]. Here's what I've tried: [previous attempts]. The error/issue is: [detailed description]. Please help me fix this by [desired solution approach].''
            else ''Instead of "'' @ original @ ''", try: "I need help with [specific topic]. My goal is [what you want to achieve]. Please provide [type of response you want]."'')
         else if issueType = ''too-short'' then
           ''Expand "'' @ original @ ''" to include: **Context**: What you're working on, **Goal**: What you want to achieve, **Constraints**: Any limitations, **Format**: How you want the response structured.''
         else if issueType = ''vague-request'' then
           (if str_includes (toLowerCase original) ''fix''
            then ''I'm having trouble with [specific problem]. Here's my current code/situation: [paste code/details]. The issue is: [error message or unwanted behavior]. I want to achieve: [desired outcome]. Please help me fix this.''
            else ''Be specific about "'' @ original @ ''": What exactly do you need? What's your current situation? What's your desired outcome? Any constraints or preferences?'')
         else if issueType = ''code-help'' then
           ''I'm working on [project/task] in [programming language]. I need help with [specific functionality]. Here's my current code: [code snippet]. The issue is: [error/problem]. Expected behavior: [what should happen]. Please provide a solution with explanation.''
         else
           ''Improve "'' @ original @ ''" by adding: 1) Specific context about your situation, 2) Clear goal/objective, 3) Any constraints or requirements, 4) Preferred response format, 5) Examples if applicable.'')\<close>

record Feedback =
  f_description :: string
  f_improvedPrompt :: string
  f_learningResource :: string

definition one_word :: regexp where
  "one_word = rx (seqs [Bol, alts [Lit ''help'', Lit ''fix'', Lit ''do'', Lit ''make'', Lit ''create'',
                                    Lit ''what'', Lit ''why'', Lit ''how'', Lit ''when'', Lit ''where''],
                        Eol])"

definition vague_request :: regexp where
  "vague_request = rx (seqs [Bol, alts [Lit ''help me'', Lit ''fix this'', Lit ''do this'', Lit ''make it''],
                             Eol])"

definition getSpecificPromptFeedback :: "string \<Rightarrow> string option \<Rightarrow> Feedback" where
  \<open>getSpecificPromptFeedback content aiTool =
     (let trimmedContent = toLowerCase (trim content);
          cleanContent = trim (str_replace content vendor_names []);
          detectedTool = (case aiTool of
                            None \<Rightarrow> detectAIToolFromContent content
                          | Some t \<Rightarrow> if t \<noteq> [] then t else detectAIToolFromContent content);
          learningResource = getAISpecificResource detectedTool
      in if str_match trimmedContent one_word \<noteq> None then
           \<lparr>f_description = ''"'' @ cleanContent @ ''" is too vague. DAM suggests adding: WHAT you want help with, WHY you need it, and HOW you want the response formatted.'',
            f_improvedPrompt = generateImprovedPrompt cleanContent ''one-word'',
            f_learningResource = learningResource\<rparr>
         else if length trimmedContent < 10 then
           \<lparr>f_description = ''"'' @ cleanContent @ ''" is too short. DAM recommends adding context about your situation, specific requirements, and desired outcome.'',
            f_improvedPrompt = generateImprovedPrompt cleanContent ''too-short'',
            f_learningResource = learningResource\<rparr>
         else if str_match trimmedContent vague_request \<noteq> None then
           \<lparr>f_description = ''"'' @ cleanContent @ ''" lacks specifics. DAM suggests clarifying: What exactly needs help? What's the current problem? What's your goal?'',
            f_improvedPrompt = generateImprovedPrompt cleanContent ''vague-request'',
            f_learningResource = learningResource\<rparr>
         else if str_includes trimmedContent ''code'' \<and> length trimmedContent < 20 then
           \<lparr>f_description = ''For coding help, DAM recommends specifying: the programming language, what the code should do, any error messages, and your current code snippet.'',
            f_improvedPrompt = generateImprovedPrompt cleanContent ''code-help'',
            f_learningResource = learningResource\<rparr>
         else
           \<lparr>f_description = ''"'' @ cleanContent @ ''" needs more detail. DAM suggests adding context, specifying your goal, mentioning constraints, and describing the desired output format.'',
            f_improvedPrompt = generateImprovedPrompt cleanContent ''generic'',
            f_learningResource = learningResource\<rparr>)\<close>

subsection \<open>generateSuggestions\<close>

text \<open>A \<open>string | null\<close> value interpolated into a template literal.\<close>

definition interpolate :: "string option \<Rightarrow> string" where
  "interpolate v = (case v of None \<Rightarrow> ''null'' | Some x \<Rightarrow> x)"

text \<open>
  The source pushes onto one array under successive guards; the model appends the
  suggestions of each guard in the same order.
\<close>

definition generateSuggestions ::
  "string option \<Rightarrow> SensitiveData \<Rightarrow> quality \<Rightarrow> string \<Rightarrow> Suggestion list" where
  \<open>generateSuggestions aiTool sensitiveData quality content =
     (if detected sensitiveData \<and> truthy aiTool then
        [\<lparr>s_type = Security, s_title = ''Sensitive Data Detected'',
          s_description = ''You're about to share '' @ join (types sensitiveData) '', '' @ '' with '' @
             interpolate aiTool @ ''. Consider removing or masking this information before proceeding.'',
          s_actionable = True, s_priority = PriorityHigh,
          s_improvedPrompt = None, s_learningResource = None, s_canRewrite = None\<rparr>,
         \<lparr>s_type = Alternative, s_title = ''Use Local AI Alternative'',
          s_description = ''For sensitive data analysis, consider using a local AI model or enterprise-approved tools that don't send data to external servers.'',
          s_actionable = True, s_priority = PriorityMedium,
          s_improvedPrompt = None, s_learningResource = None, s_canRewrite = None\<rparr>]
      else [])
     @
     (if quality = Poor then
        (let specificFeedback = getSpecificPromptFeedback content aiTool
         in [\<lparr>s_type = Quality, s_title = ''Your Prompt Needs Improvement'',
               s_description = f_description specificFeedback,
               s_actionable = True, s_priority = PriorityHigh,
               s_improvedPrompt = Some (f_improvedPrompt specificFeedback),
               s_learningResource = Some (f_learningResource specificFeedback),
               s_canRewrite = Some True\<rparr>])
      else if quality = Fair then
        (let specificFeedback = getSpecificPromptFeedback content aiTool
         in [\<lparr>s_type = Quality, s_title = ''DAM Can Make Your Prompt More Effective'',
               s_description = f_description specificFeedback,
               s_actionable = True, s_priority = PriorityMedium,
               s_improvedPrompt = Some (f_improvedPrompt specificFeedback),
               s_learningResource = Some (f_learningResource specificFeedback),
               s_canRewrite = Some True\<rparr>])
      else [])
     @
     (if str_includes (toLowerCase content) ''spreadsheet'' \<or>
         str_includes (toLowerCase content) ''excel'' \<or>
         str_includes (toLowerCase content) ''csv''
      then [\<lparr>s_type = Efficiency, s_title = ''Use Specialized Tools'',
             s_description = ''For spreadsheet analysis, consider using Excel's built-in AI features or specialized data analysis tools for better performance.'',
             s_actionable = True, s_priority = PriorityLow,
             s_improvedPrompt = None, s_learningResource = None, s_canRewrite = None\<rparr>]
      else [])\<close>

subsection \<open>identifyLearningOpportunity\<close>

definition identifyLearningOpportunity ::
  "string option \<Rightarrow> quality \<Rightarrow> SensitiveData \<Rightarrow> string \<Rightarrow> LearningOpportunity option" where
  \<open>identifyLearningOpportunity aiTool quality sensitiveData content =
     (if detected sensitiveData \<and> truthy aiTool then
        Some \<lparr>l_type = Security_risk, l_title = ''Data Privacy Best Practices'',
              l_description = ''Learn how to safely use AI tools with sensitive information'',
              l_example = Some (''Instead of: "Analyze this customer list: [actual data]"'' @ [CHR 0x0A] @
                                ''Try: "Analyze a customer list with columns: name, email, purchase_amount"''),
              l_resources = Some [''https://dam.ai/learn/data-privacy'',
                                  ''https://dam.ai/learn/ai-security'']\<rparr>
      else if quality = Poor then
        Some \<lparr>l_type = Prompt_improvement, l_title = ''Write Better AI Prompts'',
              l_description = ''Your prompt is too vague. Learn prompt engineering techniques to get better results'',
              l_example = Some (''Instead of: "'' @ substring0 content 20 @ ''..."'' @ [CHR 0x0A] @
                                ''Try: "[Be specific about what you want, provide context, specify format, include examples]"''),
              l_resources = Some [''https://dam.ai/learn/prompt-engineering'',
                                  ''https://dam.ai/learn/ai-communication'']\<rparr>
      else if quality = Fair then
        Some \<lparr>l_type = Prompt_improvement, l_title = ''Write Better AI Prompts'',
              l_description = ''Learn prompt engineering techniques to get better results'',
              l_example = Some (''Instead of: "Fix this"'' @ [CHR 0x0A] @
                                ''Try: "Review this Python function for bugs and suggest improvements. Focus on error handling and performance."''),
              l_resources = Some [''https://dam.ai/learn/prompt-engineering'',
                                  ''https://dam.ai/learn/ai-communication'']\<rparr>
      else if str_includes (toLowerCase content) ''code'' \<and> aiTool = Some ''chatgpt'' then
        Some \<lparr>l_type = Tool_suggestion, l_title = ''Try GitHub Copilot for Coding'',
              l_description = ''For code-related tasks, specialized tools like GitHub Copilot might provide better results with IDE integration.'',
              l_example = None,
              l_resources = Some [''https://dam.ai/learn/coding-ai-tools'']\<rparr>
      else None)\<close>

subsection \<open>sanitizeContentForAlert\<close>

text \<open>
  \<open>replace\<close> with a global pattern resets the pattern object's \<open>lastIndex\<close> to 0 before
  it scans and leaves it at 0; the two global patterns used here are the table's own
  objects.
\<close>

definition sanitizeContentForAlert :: "lastIndexes \<Rightarrow> string \<Rightarrow> string \<times> lastIndexes" where
  "sanitizeContentForAlert li content =
     (let sanitized = content;
          sanitized = str_replace sanitized apiKey_pattern ''[API_KEY_REDACTED]'';
          sanitized = str_replace sanitized openaiKey_pattern ''[OPENAI_KEY_REDACTED]'';
          sanitized = str_replace sanitized ssn_pattern ''[SSN_REDACTED]'';
          sanitized = str_replace sanitized creditCard_pattern ''[CREDIT_CARD_REDACTED]'';
          sanitized = (if length sanitized > 500
                       then substring0 sanitized 500 @ ''... [TRUNCATED]''
                       else sanitized)
      in (sanitized, li(''apiKey'' := 0, ''openaiKey'' := 0)))"

subsection \<open>syncToEnterpriseDashboard\<close>

definition categorizeContent :: "string \<Rightarrow> string" where
  "categorizeContent content =
     (let text = toLowerCase content
      in if str_includes text ''code'' \<or> str_includes text ''function'' \<or> str_includes text ''class'' \<or>
            str_includes text ''debug'' then ''code_generation''
         else if str_includes text ''write'' \<or> str_includes text ''email'' \<or>
                 str_includes text ''document'' \<or> str_includes text ''content'' then ''writing_editing''
         else if str_includes text ''analyze'' \<or> str_includes text ''research'' \<or>
                 str_includes text ''data'' \<or> str_includes text ''study'' then ''analysis_research''
         else if str_includes text ''problem'' \<or> str_includes text ''solve'' \<or>
                 str_includes text ''help'' \<or> str_includes text ''fix'' then ''problem_solving''
         else if str_includes text ''design'' \<or> str_includes text ''creative'' \<or>
                 str_includes text ''art'' \<or> str_includes text ''image'' then ''creative_tasks''
         else ''other'')"

definition determineContentType :: "string \<Rightarrow> string" where
  "determineContentType content =
     (if str_includes content ''function'' \<or> str_includes content ''class'' \<or>
         str_includes content ''{'' \<or> str_includes content ''import'' then ''code''
      else if str_includes content ''data'' \<or> str_includes content ''csv'' \<or>
              str_includes content ''json'' \<or> str_includes content ''table'' then ''data''
      else if str_includes content ''image'' \<or> str_includes content ''picture'' \<or>
              str_includes content ''photo'' \<or> str_includes content ''visual'' then ''image''
      else ''text'')"

definition riskLevel_string :: "riskLevel \<Rightarrow> string" where
  "riskLevel_string r =
     (case r of Low \<Rightarrow> ''low'' | Medium \<Rightarrow> ''medium'' | High \<Rightarrow> ''high'' | Critical \<Rightarrow> ''critical'')"

definition generateAlertDescription :: "AnalysisResult \<Rightarrow> string" where
  "generateAlertDescription result =
     (let descriptions =
            (if includes_elem (sensitiveDataTypes result) ''apiKey''
             then [''API key detected in prompt''] else []) @
            (if includes_elem (sensitiveDataTypes result) ''ssn''
             then [''Social Security Number detected''] else []) @
            (if includes_elem (sensitiveDataTypes result) ''creditCard''
             then [''Credit card number detected''] else []) @
            (if includes_elem (sensitiveDataTypes result) ''email''
             then [''Email address detected''] else []) @
            (if includes_elem (sensitiveDataTypes result) ''password''
             then [''Password detected''] else [])
      in if length descriptions > 0 then join descriptions '', ''
         else riskLevel_string (riskLevel result) @ '' risk activity detected in AI interaction'')"

text \<open>
  What the analyzer hands to the dashboard sink. The user fields come from a stored
  profile and are left out; whether the sink queues a record depends on the enterprise
  settings, which are outside the analyzer.
\<close>

record UsageEvent =
  u_aiTool :: string
  u_action :: string
  u_category :: string
  u_riskLevel :: riskLevel
  u_contentType :: string
  u_promptLength :: nat
  u_sensitiveDataDetected :: bool
  u_apiKeyExposed :: bool
  u_complianceFlags :: "string list"

record SecurityAlert =
  a_alertType :: string
  a_severity :: riskLevel
  a_description :: string
  a_aiTool :: string
  a_content :: string
  a_actionTaken :: string
  a_resolved :: bool

datatype dashboardRecord = RecordUsageEvent UsageEvent | RecordSecurityAlert SecurityAlert

definition tool_or_unknown :: "string option \<Rightarrow> string" where
  "tool_or_unknown v = (case v of None \<Rightarrow> ''unknown'' | Some x \<Rightarrow> if x \<noteq> [] then x else ''unknown'')"

definition syncToEnterpriseDashboard ::
  "lastIndexes \<Rightarrow> AnalysisResult \<Rightarrow> string \<Rightarrow> dashboardRecord list \<times> lastIndexes" where
  "syncToEnterpriseDashboard li result extractedText =
     (let usage = RecordUsageEvent
            \<lparr>u_aiTool = tool_or_unknown (aiToolDetected result),
             u_action = ''prompt'',
             u_category = categorizeContent extractedText,
             u_riskLevel = riskLevel result,
             u_contentType = determineContentType extractedText,
             u_promptLength = length extractedText,
             u_sensitiveDataDetected = sensitiveDataDetected result,
             u_apiKeyExposed = (includes_elem (sensitiveDataTypes result) ''apiKey'' \<or>
                                includes_elem (sensitiveDataTypes result) ''openaiKey''),
             u_complianceFlags = sensitiveDataTypes result\<rparr>
      in if riskLevel result = High \<or> riskLevel result = Critical \<or> sensitiveDataDetected result
         then (case sanitizeContentForAlert li extractedText of
                 (content, li') \<Rightarrow>
                   ([usage,
                     RecordSecurityAlert
                       \<lparr>a_alertType = (if includes_elem (sensitiveDataTypes result) ''apiKey''
                                        then ''api_key_exposure'' else ''sensitive_data''),
                        a_severity = riskLevel result,
                        a_description = generateAlertDescription result,
                        a_aiTool = tool_or_unknown (aiToolDetected result),
                        a_content = content,
                        a_actionTaken = (if length (suggestions result) > 0
                                         then ''suggestions_provided'' else ''user_notified''),
                        a_resolved = False\<rparr>], li'))
         else ([usage], li))"

subsection \<open>analyzeContent\<close>

text \<open>
  \<open>now\<close> is the reading of the clock at entry. The result comes with the records
  handed to the dashboard sink and the analyzer's state afterwards.
\<close>

definition analyzeContent ::
  "lastIndexes \<Rightarrow> int \<Rightarrow> ScreenCaptureResult \<Rightarrow> string \<Rightarrow>
     AnalysisResult \<times> dashboardRecord list \<times> lastIndexes" where
  "analyzeContent li now screenCapture extractedText =
     (let tool = detectAITool (activeWindow screenCapture) extractedText
      in case analyzeSensitiveData li extractedText of
           (sensitiveDataAnalysis, li1) \<Rightarrow>
             (let quality = (if truthy tool then analyzePromptQuality extractedText else Good);
                  risk = calculateRiskLevel (detected sensitiveDataAnalysis)
                           (types sensitiveDataAnalysis) tool;
                  result = \<lparr>timestamp = now,
                            riskLevel = risk,
                            sensitiveDataDetected = detected sensitiveDataAnalysis,
                            sensitiveDataTypes = types sensitiveDataAnalysis,
                            aiToolDetected = tool,
                            promptQuality = quality,
                            suggestions = generateSuggestions tool sensitiveDataAnalysis quality
                                            extractedText,
                            learningOpportunity = identifyLearningOpportunity tool quality
                                                    sensitiveDataAnalysis extractedText\<rparr>
              in case syncToEnterpriseDashboard li1 result extractedText of
                   (records, li2) \<Rightarrow> (result, records, li2)))"

section \<open>The window classifier and the notification gate (AIWindowDetector)\<close>

record AIWindowInfo =
  isAIWindow :: bool
  platform :: "string option"
  url :: "string option"
  appName :: "string option"

definition not_ai_window :: AIWindowInfo where
  "not_ai_window = \<lparr>isAIWindow = False, platform = None, url = None, appName = None\<rparr>"

definition http :: re where
  "http = seqs [Lit ''http'', opt (Lit ''s''), Lit ''://'']"

definition aiPlatformUrls :: "(regexp \<times> string) list" where
  "aiPlatformUrls =
     [(rx_i (seqs [http, opt (Lit ''www.''), Lit ''chatgpt.com'']), ''ChatGPT''),
      (rx_i (seqs [http, Lit ''chat.openai.com'']), ''ChatGPT''),
      (rx_i (seqs [http, opt (Lit ''www.''), Lit ''claude.ai'']), ''Claude''),
      (rx_i (seqs [http, Lit ''claude.anthropic.com'']), ''Claude''),
      (rx_i (seqs [http, Lit ''gemini.google.com'']), ''Gemini''),
      (rx_i (seqs [http, Lit ''bard.google.com'']), ''Gemini''),
      (rx_i (seqs [http, opt (Lit ''www.''), Lit ''perplexity.ai'']), ''Perplexity'')]"

definition dashes :: re where
  "dashes = opt (alts [Lit ''-'', Lit ''--''])"

definition terminalAIPatterns :: "(regexp \<times> string) list" where
  "terminalAIPatterns =
     [(rx_i (seqs [Lit ''claude'', plus1 wspace, dashes]), ''Claude CLI''),
      (rx_i (seqs [Lit ''gemini'', plus1 wspace, dashes]), ''Gemini CLI''),
      (rx_i (seqs [Lit ''openai'', plus1 wspace, dashes]), ''OpenAI CLI''),
      (rx_i (seqs [Lit ''chatgpt'', plus1 wspace, dashes]), ''ChatGPT CLI'')]"

definition aiDesktopApps :: "(regexp \<times> string) list" where
  "aiDesktopApps =
     [(rx_i (alts [seqs [Lit ''claude'', star Dot, Lit ''desktop''],
                   seqs [Lit ''claude'', star wspace, Lit ''app'']]), ''Claude Desktop''),
      (rx_i (alts [seqs [Lit ''chatgpt'', star Dot, Lit ''desktop''],
                   seqs [Lit ''openai'', star Dot, Lit ''app'']]), ''ChatGPT Desktop''),
      (rx_i (alts [seqs [Lit ''gemini'', star Dot, Lit ''desktop''],
                   seqs [Lit ''gemini'', star wspace, Lit ''app'']]), ''Gemini Desktop'')]"

fun urlPattern_loop :: "(regexp \<times> string) list \<Rightarrow> string \<Rightarrow> AIWindowInfo option" where
  "urlPattern_loop [] combinedText = None"
| "urlPattern_loop ((pattern, name) # entries) combinedText =
     (if test pattern combinedText
      then Some \<lparr>isAIWindow = True, platform = Some name,
                 url = str_match combinedText pattern, appName = None\<rparr>
      else urlPattern_loop entries combinedText)"

fun platformName_loop :: "string list \<Rightarrow> string \<Rightarrow> AIWindowInfo option" where
  "platformName_loop [] windowTitleLower = None"
| "platformName_loop (name # names) windowTitleLower =
     (if str_includes windowTitleLower (toLowerCase name)
      then Some \<lparr>isAIWindow = True, platform = Some name, url = None, appName = None\<rparr>
      else platformName_loop names windowTitleLower)"

definition checkBrowserAIPlatform :: "string \<Rightarrow> string \<Rightarrow> AIWindowInfo" where
  "checkBrowserAIPlatform windowTitle extractedText =
     (let windowTitleLower = toLowerCase windowTitle;
          isBrowser = (str_includes windowTitleLower ''chrome'' \<or>
                       str_includes windowTitleLower ''firefox'' \<or>
                       str_includes windowTitleLower ''safari'' \<or>
                       str_includes windowTitleLower ''edge'' \<or>
                       str_includes windowTitleLower ''brave'')
      in if \<not> isBrowser then not_ai_window
         else (let combinedText = windowTitle @ '' '' @ extractedText
               in case urlPattern_loop aiPlatformUrls combinedText of
                    Some info \<Rightarrow> info
                  | None \<Rightarrow>
                      (case platformName_loop [''ChatGPT'', ''Claude'', ''Gemini'', ''Perplexity'']
                              windowTitleLower of
                         Some info \<Rightarrow> info
                       | None \<Rightarrow> not_ai_window)))"

fun terminalPattern_loop :: "(regexp \<times> string) list \<Rightarrow> string \<Rightarrow> AIWindowInfo option" where
  "terminalPattern_loop [] extractedText = None"
| "terminalPattern_loop ((pattern, name) # entries) extractedText =
     (if test pattern extractedText
      then Some \<lparr>isAIWindow = True, platform = Some name, url = None, appName = Some ''Terminal''\<rparr>
      else terminalPattern_loop entries extractedText)"

definition checkTerminalAI :: "string \<Rightarrow> string \<Rightarrow> AIWindowInfo" where
  "checkTerminalAI windowTitle extractedText =
     (let windowTitleLower = toLowerCase windowTitle;
          isTerminal = (str_includes windowTitleLower ''terminal'' \<or>
                        str_includes windowTitleLower ''iterm'' \<or>
                        str_includes windowTitleLower ''console'' \<or>
                        str_includes windowTitleLower ''powershell'' \<or>
                        str_includes windowTitleLower ''cmd'')
      in if \<not> isTerminal then not_ai_window
         else (case terminalPattern_loop terminalAIPatterns extractedText of
                 Some info \<Rightarrow> info
               | None \<Rightarrow> not_ai_window))"

fun desktopApp_loop :: "(regexp \<times> string) list \<Rightarrow> string \<Rightarrow> AIWindowInfo option" where
  "desktopApp_loop [] windowTitleLower = None"
| "desktopApp_loop ((pattern, name) # entries) windowTitleLower =
     (if test pattern windowTitleLower
      then Some \<lparr>isAIWindow = True, platform = Some name, url = None, appName = Some name\<rparr>
      else desktopApp_loop entries windowTitleLower)"

definition checkDesktopAIApp :: "string \<Rightarrow> AIWindowInfo" where
  "checkDesktopAIApp windowTitle =
     (let windowTitleLower = toLowerCase windowTitle
      in case desktopApp_loop aiDesktopApps windowTitleLower of
           Some info \<Rightarrow> info
         | None \<Rightarrow> not_ai_window)"

definition detectAIWindow :: "string \<Rightarrow> string \<Rightarrow> AIWindowInfo" where
  "detectAIWindow windowTitle extractedText =
     (let browserMatch = checkBrowserAIPlatform windowTitle extractedText
      in if isAIWindow browserMatch then browserMatch
         else (let terminalMatch = checkTerminalAI windowTitle extractedText
               in if isAIWindow terminalMatch then terminalMatch
                  else (let desktopMatch = checkDesktopAIApp windowTitle
                        in if isAIWindow desktopMatch then desktopMatch
                           else not_ai_window)))"

text \<open>
  The gate draws a random number in at most one place per call; \<open>draw\<close> is the value
  \<open>Math.random()\<close> returns there, a number in \<open>[0, 1)\<close>. The thresholds are the decimal
  literals of the source.
\<close>

definition shouldShowNotification :: "AIWindowInfo \<Rightarrow> AnalysisResult \<Rightarrow> real \<Rightarrow> bool" where
  "shouldShowNotification aiWindowInfo analysisResult draw =
     (if \<not> isAIWindow aiWindowInfo then False
      else if riskLevel analysisResult = Critical \<or> riskLevel analysisResult = High then True
      else if sensitiveDataDetected analysisResult then True
      else if promptQuality analysisResult = Poor then draw < 0.33
      else if learningOpportunity analysisResult \<noteq> None \<and> promptQuality analysisResult = Fair
      then draw < 0.2
      else False)"

section \<open>The monitoring orchestrator (MonitoringService)\<close>

subsection \<open>Notification preferences (NotificationSettings)\<close>

datatype frequency = All | Occasional | Minimal

datatype position = TopRight | BottomRight | Center

record NotificationPreferences =
  enabled :: bool
  criticalAlerts :: bool
  securityWarnings :: bool
  promptSuggestions :: bool
  learningTips :: bool
  frequency :: frequency
  soundEnabled :: bool
  position :: position

definition defaultSettings :: NotificationPreferences where
  "defaultSettings =
     \<lparr>enabled = True, criticalAlerts = True, securityWarnings = True, promptSuggestions = False,
      learningTips = False, frequency = Minimal, soundEnabled = False, position = BottomRight\<rparr>"

definition getFrequencyMultiplier :: "NotificationPreferences \<Rightarrow> real" where
  "getFrequencyMultiplier prefs =
     (case frequency prefs of All \<Rightarrow> 1.0 | Occasional \<Rightarrow> 0.3 | Minimal \<Rightarrow> 0.1)"

subsection \<open>State, collaborators and the environment of a tick\<close>

text \<open>
  A notification handed to the notification service. Its type, title and message are
  fixed by its kind; the record keeps the kind and the data that vary.
\<close>

datatype notificationKind = CriticalAlert | SecurityWarning | PromptTip | LearningTip

record NotificationOptions =
  n_kind :: notificationKind
  n_suggestions :: "Suggestion list"
  n_learningOpportunity :: "LearningOpportunity option"
  n_position :: position
  n_duration :: "int option"
  n_actions :: "(string \<times> string) list"

record usage_row =
  ur_user_id :: nat
  ur_ai_tool :: string
  ur_usage_type :: string
  ur_content_hash :: string
  ur_riskLevel :: riskLevel
  ur_promptQuality :: quality
  ur_timestamp :: int

record alert_row =
  ar_user_id :: nat
  ar_type :: string
  ar_severity :: string
  ar_message :: string

text \<open>The calls a tick makes to its collaborators, in the order it makes them.\<close>

datatype call =
    DetectAIWindow string string
  | ExtractText
  | AnalyzeContent string
  | InsertUsage
  | InsertAlert
  | ShowNotification notificationKind

record monitor =
  lastAnalysisTime :: int
  lastNotificationTime :: int
  analyzer :: lastIndexes
  ai_usage :: "usage_row list"
  alerts :: "alert_row list"
  dashboard :: "dashboardRecord list"
  shown :: "NotificationOptions list"
  calls :: "call list"

definition analysisThrottleMs :: int where "analysisThrottleMs = 3000"
definition notificationThrottleMs :: int where "notificationThrottleMs = 30000"

text \<open>
  What a tick takes from outside: the readings of the clock at its four call sites, the
  outcome of the OCR provider (which may throw), whether each database insert and the
  notification service succeed, the stored preferences, and the random numbers drawn at
  the three call sites of \<open>Math.random\<close>.
\<close>

datatype ocr_outcome = OcrThrows | OcrText string

record tick_env =
  now_tick :: int
  now_analysis :: int
  now_canShow :: int
  now_handle :: int
  ocr :: ocr_outcome
  usage_insert_ok :: bool
  alert_insert_ok :: bool
  show_ok :: bool
  prefs :: NotificationPreferences
  random_gate :: real
  random_prompt :: real
  random_learning :: real

subsection \<open>recordAnalysis\<close>

text \<open>\<open>Number.prototype.toString(16)\<close> of a non-negative integer.\<close>

function to_hex :: "int \<Rightarrow> string" where
  "to_hex n = (if n < 16 then [''0123456789abcdef'' ! nat n]
               else to_hex (n div 16) @ [''0123456789abcdef'' ! nat (n mod 16)])"
  by pat_completeness auto
termination
  by (relation "measure nat") auto

fun contentHash_loop :: "string \<Rightarrow> 32 word \<Rightarrow> 32 word" where
  "contentHash_loop [] hash = hash"
| "contentHash_loop (c # cs) hash =
     contentHash_loop cs ((push_bit 5 hash - hash) + of_nat (of_char c))"

definition generateContentHash :: "string \<Rightarrow> string" where
  "generateContentHash content = to_hex \<bar>sint (contentHash_loop content 0)\<bar>"

definition riskLevel_upper :: "riskLevel \<Rightarrow> string" where
  "riskLevel_upper r =
     (case r of Low \<Rightarrow> ''LOW'' | Medium \<Rightarrow> ''MEDIUM'' | High \<Rightarrow> ''HIGH'' | Critical \<Rightarrow> ''CRITICAL'')"

definition createAlert :: "tick_env \<Rightarrow> monitor \<Rightarrow> string \<Rightarrow> string \<Rightarrow> string \<Rightarrow> monitor" where
  "createAlert env st ty severity message =
     (let st1 = st\<lparr>calls := calls st @ [InsertAlert]\<rparr>
      in if alert_insert_ok env
         then st1\<lparr>alerts := alerts st1 @
                      [\<lparr>ar_user_id = 1, ar_type = ty, ar_severity = severity, ar_message = message\<rparr>]\<rparr>
         else st1)"

text \<open>
  A rejected insert of the usage row throws into the handler around the whole body, so
  the alert is not attempted.
\<close>

definition recordAnalysis :: "tick_env \<Rightarrow> monitor \<Rightarrow> AnalysisResult \<Rightarrow> string \<Rightarrow> monitor" where
  "recordAnalysis env st analysis ocrText =
     (let alert = (\<lambda>st'. if riskLevel analysis = High \<or> riskLevel analysis = Critical
                         then createAlert env st' ''security_risk''
                                (riskLevel_string (riskLevel analysis))
                                (riskLevel_upper (riskLevel analysis) @ '' risk detected: '' @
                                 join (sensitiveDataTypes analysis) '', '')
                         else st')
      in if truthy (aiToolDetected analysis) then
           (let st1 = st\<lparr>calls := calls st @ [InsertUsage]\<rparr>
            in if usage_insert_ok env
               then alert (st1\<lparr>ai_usage := ai_usage st1 @
                                  [\<lparr>ur_user_id = 1,
                                    ur_ai_tool = interpolate (aiToolDetected analysis),
                                    ur_usage_type = ''screen_detected'',
                                    ur_content_hash = generateContentHash ocrText,
                                    ur_riskLevel = riskLevel analysis,
                                    ur_promptQuality = promptQuality analysis,
                                    ur_timestamp = timestamp analysis\<rparr>]\<rparr>)
               else st1)
         else alert st)"

subsection \<open>canShowNotification and handleAnalysisResults\<close>

definition canShowNotification :: "tick_env \<Rightarrow> monitor \<Rightarrow> bool" where
  "canShowNotification env st =
     (let now = now_canShow env;
          timeSinceLastNotification = now - lastNotificationTime st
      in if timeSinceLastNotification < notificationThrottleMs then False
         else enabled (prefs env))"

text \<open>A notification service that throws leaves nothing shown; the handler swallows it.\<close>

definition showNotification :: "tick_env \<Rightarrow> monitor \<Rightarrow> NotificationOptions \<Rightarrow> monitor" where
  "showNotification env st options =
     (let st1 = st\<lparr>calls := calls st @ [ShowNotification (n_kind options)]\<rparr>
      in if show_ok env then st1\<lparr>shown := shown st1 @ [options]\<rparr> else st1)"

definition learningTip :: "tick_env \<Rightarrow> monitor \<Rightarrow> AnalysisResult \<Rightarrow> real \<Rightarrow> monitor" where
  "learningTip env st analysis frequencyMultiplier =
     (if learningTips (prefs env) \<and> learningOpportunity analysis \<noteq> None \<and>
         random_learning env < frequencyMultiplier * 0.5
      then showNotification env st
             \<lparr>n_kind = LearningTip, n_suggestions = [],
              n_learningOpportunity = learningOpportunity analysis,
              n_position = position (prefs env), n_duration = Some 8000,
              n_actions = [(''Learn More'', ''open_training''), (''Not Now'', ''dismiss'')]\<rparr>
      else st)"

definition handleAnalysisResults :: "tick_env \<Rightarrow> monitor \<Rightarrow> AnalysisResult \<Rightarrow> monitor" where
  "handleAnalysisResults env st analysis =
     (let frequencyMultiplier = getFrequencyMultiplier (prefs env);
          st1 = st\<lparr>lastNotificationTime := now_handle env\<rparr>
      in if riskLevel analysis = Critical \<and> criticalAlerts (prefs env) then
           showNotification env st1
             \<lparr>n_kind = CriticalAlert, n_suggestions = suggestions analysis,
              n_learningOpportunity = None,
              n_position = position (prefs env), n_duration = Some (- 1),
              n_actions = [(''Remove Sensitive Data'', ''remove_sensitive''),
                           (''I Understand the Risk'', ''dismiss'')]\<rparr>
         else if riskLevel analysis = High \<and> securityWarnings (prefs env) then
           showNotification env st1
             \<lparr>n_kind = SecurityWarning, n_suggestions = suggestions analysis,
              n_learningOpportunity = None,
              n_position = position (prefs env), n_duration = None,
              n_actions = [(''View Details'', ''view_details''), (''Dismiss'', ''dismiss'')]\<rparr>
         else if promptSuggestions (prefs env) \<and> promptQuality analysis = Poor \<and>
                 random_prompt env < frequencyMultiplier then
           (let qualitySuggestions = filter (\<lambda>x. s_type x = Quality) (suggestions analysis)
            in case qualitySuggestions of
                 first # others \<Rightarrow>
                   if truthy (s_improvedPrompt first) then
                     showNotification env st1
                       \<lparr>n_kind = PromptTip, n_suggestions = qualitySuggestions,
                        n_learningOpportunity = None,
                        n_position = position (prefs env), n_duration = Some 10000,
                        n_actions = [(''Copy Improved Prompt'', ''copy_improved''),
                                     (''Learn More'', ''learn_more''),
                                     (''Dismiss'', ''dismiss'')]\<rparr>
                   else learningTip env st1 analysis frequencyMultiplier
               | [] \<Rightarrow> learningTip env st1 analysis frequencyMultiplier)
         else learningTip env st1 analysis frequencyMultiplier)"

subsection \<open>analyzeScreenCapture: one capture tick\<close>

definition analyzeScreenCapture :: "tick_env \<Rightarrow> monitor \<Rightarrow> ScreenCaptureResult \<Rightarrow> monitor" where
  "analyzeScreenCapture env st capture =
     (let now = now_tick env
      in if now - lastAnalysisTime st < analysisThrottleMs then st
         else
           (let st1 = st\<lparr>lastAnalysisTime := now,
                         calls := calls st @ [DetectAIWindow (activeWindow capture) []]\<rparr>;
                aiWindowInfo = detectAIWindow (activeWindow capture) []
            in if \<not> isAIWindow aiWindowInfo then st1
               else
                 (let st2 = st1\<lparr>calls := calls st1 @ [ExtractText]\<rparr>
                  in case ocr env of
                       OcrThrows \<Rightarrow> st2
                     | OcrText ocrText \<Rightarrow>
                         if ocrText = [] \<or> length (trim ocrText) = 0 then st2
                         else
                           (case analyzeContent (analyzer st2) (now_analysis env) capture ocrText of
                              (analysis, records, li) \<Rightarrow>
                                (let st3 = st2\<lparr>analyzer := li,
                                               dashboard := dashboard st2 @ records,
                                               calls := calls st2 @ [AnalyzeContent ocrText]\<rparr>;
                                     st4 = recordAnalysis env st3 analysis ocrText;
                                     shouldNotify = shouldShowNotification aiWindowInfo analysis
                                                      (random_gate env)
                                 in if shouldNotify \<and> canShowNotification env st4
                                    then handleAnalysisResults env st4 analysis
                                    else st4)))))"

section \<open>The specification's statements\<close>

text \<open>The four-tier risk function as the specification words it, over the detected types.\<close>

definition risk_spec :: "string option \<Rightarrow> string list \<Rightarrow> riskLevel" where
  "risk_spec tool tys =
     (if \<not> truthy tool then Low
      else if set tys \<inter> {''apiKey'', ''password'', ''ssn''} \<noteq> {} then Critical
      else if set tys \<inter> {''financialData'', ''customerData'', ''creditCard''} \<noteq> {} then High
      else if tys \<noteq> [] then Medium
      else Low)"

text \<open>The priority cascade of the prompt-quality assessor as the specification words it.\<close>

definition assess_spec :: "string \<Rightarrow> quality" where
  "assess_spec text =
     (if \<exists>p \<in> set excellent_indicators. test p text then Excellent
      else if length (filter (\<lambda>p. test p text) good_indicators) \<ge> 2 then Good
      else if length (filter (\<lambda>p. test p text) good_indicators) = 1 then Fair
      else if \<exists>p \<in> set poor_indicators. test p text then Poor
      else if length text > 50 then Fair
      else Poor)"

text \<open>
  The notification gate as the specification words it, with the two probabilities as
  parameters: the gate fires on a draw below the probability.
\<close>

definition shouldNotify_spec ::
  "real \<Rightarrow> real \<Rightarrow> AIWindowInfo \<Rightarrow> AnalysisResult \<Rightarrow> real \<Rightarrow> bool" where
  "shouldNotify_spec p_poor p_fair w a draw =
     (isAIWindow w \<and>
      (riskLevel a = Critical \<or> riskLevel a = High \<or> sensitiveDataDetected a \<or>
       (promptQuality a = Poor \<and> draw < p_poor) \<or>
       (promptQuality a = Fair \<and> learningOpportunity a \<noteq> None \<and> draw < p_fair)))"

text \<open>The shape \<open>\d{3}-\d{2}-\d{4}\<close>.\<close>

fun ssn_shape :: "string \<Rightarrow> bool" where
  "ssn_shape [a, b, c, h1, e, f, h2, g, h, i, j] =
     (is_digit a \<and> is_digit b \<and> is_digit c \<and> h1 = CHR ''-'' \<and> is_digit e \<and> is_digit f \<and>
      h2 = CHR ''-'' \<and> is_digit g \<and> is_digit h \<and> is_digit i \<and> is_digit j)"
| "ssn_shape x = False"

text \<open>The code unit before the position that follows \<open>pre\<close>, when \<open>p\<close> is the one before \<open>pre\<close>.\<close>

definition before :: "char option \<Rightarrow> string \<Rightarrow> char option" where
  "before p pre = (if pre = [] then p else Some (last pre))"

subsection \<open>Concrete inputs\<close>

definition key_text :: string where
  "key_text = ''sk-abcd1234567890123456789012345678901234567890ab''"

definition capture_of :: "string \<Rightarrow> ScreenCaptureResult" where
  "capture_of title = \<lparr>capture_timestamp = 0, imageData = [], activeWindow = title, screenId = ''screen-0''\<rparr>"

definition initial :: monitor where
  "initial = \<lparr>lastAnalysisTime = 0, lastNotificationTime = 0, analyzer = fresh, ai_usage = [],
              alerts = [], dashboard = [], shown = [], calls = []\<rparr>"

text \<open>A tick at time \<open>t\<close> with the default preferences, on which OCR returns \<open>txt\<close>.\<close>

definition tick_at :: "int \<Rightarrow> string \<Rightarrow> tick_env" where
  "tick_at t txt =
     \<lparr>now_tick = t, now_analysis = t, now_canShow = t, now_handle = t, ocr = OcrText txt,
      usage_insert_ok = True, alert_insert_ok = True, show_ok = True, prefs = defaultSettings,
      random_gate = 0.5, random_prompt = 0.5, random_learning = 0.5\<rparr>"

definition is_classify :: "call \<Rightarrow> bool" where
  "is_classify c = (case c of DetectAIWindow title txt \<Rightarrow> True | _ \<Rightarrow> False)"

definition claude_tab :: AIWindowInfo where
  "claude_tab = \<lparr>isAIWindow = True, platform = Some ''Claude'', url = None, appName = None\<rparr>"

definition vague_prompt :: AnalysisResult where
  "vague_prompt =
     \<lparr>timestamp = 0, riskLevel = Low, sensitiveDataDetected = False, sensitiveDataTypes = [],
      aiToolDetected = Some ''claude'', promptQuality = Poor, suggestions = [],
      learningOpportunity = None\<rparr>"

section \<open>Properties\<close>

subsection \<open>Shared lemmas\<close>

lemma some_elem_includes: "some_elem xs (\<lambda>x. includes_elem ys x) \<longleftrightarrow> set xs \<inter> set ys \<noteq> {}"
  by (auto simp: some_elem_def includes_elem_def list_ex_iff)

lemma analyzeSensitiveData_detected:
  "detected (fst (analyzeSensitiveData li text)) = (types (fst (analyzeSensitiveData li text)) \<noteq> [])"
  by (simp add: analyzeSensitiveData_def split: prod.splits)

lemma analyzeContent_fields:
  "riskLevel (fst (analyzeContent li now cap text)) =
     calculateRiskLevel (detected (fst (analyzeSensitiveData li text)))
       (types (fst (analyzeSensitiveData li text))) (detectAITool (activeWindow cap) text)"
  "sensitiveDataDetected (fst (analyzeContent li now cap text)) = detected (fst (analyzeSensitiveData li text))"
  "sensitiveDataTypes (fst (analyzeContent li now cap text)) = types (fst (analyzeSensitiveData li text))"
  "aiToolDetected (fst (analyzeContent li now cap text)) = detectAITool (activeWindow cap) text"
  "promptQuality (fst (analyzeContent li now cap text)) =
     (if truthy (detectAITool (activeWindow cap) text) then analyzePromptQuality text else Good)"
  "suggestions (fst (analyzeContent li now cap text)) =
     generateSuggestions (detectAITool (activeWindow cap) text) (fst (analyzeSensitiveData li text))
       (if truthy (detectAITool (activeWindow cap) text) then analyzePromptQuality text else Good) text"
  "learningOpportunity (fst (analyzeContent li now cap text)) =
     identifyLearningOpportunity (detectAITool (activeWindow cap) text)
       (if truthy (detectAITool (activeWindow cap) text) then analyzePromptQuality text else Good)
       (fst (analyzeSensitiveData li text)) text"
  "timestamp (fst (analyzeContent li now cap text)) = now"
  by (simp_all add: analyzeContent_def Let_def split: prod.splits)

lemma any_test_iff: "any_test ps text \<longleftrightarrow> (\<exists>p \<in> set ps. test p text)"
  by (induction ps) auto

lemma count_tests_eq: "count_tests ps text n = n + length (filter (\<lambda>p. test p text) ps)"
  by (induction ps arbitrary: n) auto

lemma security_suggestions:
  "detected sd \<Longrightarrow> truthy tool \<Longrightarrow>
   map s_type (take 2 (generateSuggestions tool sd q content)) = [Security, Alternative]"
  by (simp add: generateSuggestions_def)

text \<open>The scenario of a key pasted into a browser tab on claude.ai.\<close>

lemma key_types: "types (fst (analyzeSensitiveData fresh key_text)) = [''openaiKey'']"
  by code_simp

lemma key_tool: "detectAITool ''Chrome - claude.ai'' key_text = Some ''claude''"
  by code_simp

lemma key_quality: "analyzePromptQuality key_text = Poor"
  by code_simp

lemma key_trim: "key_text \<noteq> [] \<and> length (trim key_text) \<noteq> 0"
  by code_simp

lemma chrome_window:
  "detectAIWindow ''Chrome - claude.ai'' [] =
     \<lparr>isAIWindow = True, platform = Some ''Claude'', url = None, appName = None\<rparr>"
  by code_simp

lemma chrome_window_text:
  "detectAIWindow ''Chrome - claude.ai'' key_text =
     \<lparr>isAIWindow = True, platform = Some ''Claude'', url = None, appName = None\<rparr>"
  by code_simp

lemma terminal_window: "detectAIWindow ''Terminal'' [] = not_ai_window"
  by code_simp

lemma key_analysis:
  "riskLevel (fst (analyzeContent fresh now (capture_of ''Chrome - claude.ai'') key_text)) = Medium"
  "sensitiveDataDetected (fst (analyzeContent fresh now (capture_of ''Chrome - claude.ai'') key_text))"
  "sensitiveDataTypes (fst (analyzeContent fresh now (capture_of ''Chrome - claude.ai'') key_text)) = [''openaiKey'']"
  "aiToolDetected (fst (analyzeContent fresh now (capture_of ''Chrome - claude.ai'') key_text)) = Some ''claude''"
  "promptQuality (fst (analyzeContent fresh now (capture_of ''Chrome - claude.ai'') key_text)) = Poor"
  by (simp_all add: analyzeContent_fields analyzeSensitiveData_detected key_types key_tool key_quality
        capture_of_def truthy_def calculateRiskLevel_def some_elem_def includes_elem_def)

subsection \<open>Searching\<close>

lemma search_finds:
  "rmatch i r (before p pre, rest) \<noteq> [] \<Longrightarrow> search i r (p, pre @ rest) \<noteq> None"
proof (induction pre arbitrary: p)
  case Nil
  then show ?case
    by (cases rest; cases "rmatch i r (p, rest)") (auto simp: before_def)
next
  case (Cons a pre)
  have "before (Some a) pre = before p (a # pre)"
    by (simp add: before_def)
  with Cons have "search i r (Some a, pre @ rest) \<noteq> None"
    by simp
  then show ?case
    by (cases "rmatch i r (p, a # pre @ rest)") (auto split: option.splits)
qed

lemma ssn_shape_cases:
  assumes "ssn_shape x"
  obtains a b c e f g h k j where
    "x = [a, b, c, CHR ''-'', e, f, CHR ''-'', g, h, k, j]"
    "is_digit a" "is_digit b" "is_digit c" "is_digit e" "is_digit f"
    "is_digit g" "is_digit h" "is_digit k" "is_digit j"
  using assms by (elim ssn_shape.elims) auto

lemma digit_is_word: "is_digit c \<Longrightarrow> is_word_char c"
  by (simp add: is_word_char_def)

lemma rmatch_digit: "is_digit c \<Longrightarrow> rmatch i digit (p, c # cs) = [(Some c, cs)]"
  by (simp add: digit_def cls_match_def)

lemma rmatch_ssn_explicit:
  "is_digit a \<Longrightarrow> is_digit b \<Longrightarrow> is_digit c \<Longrightarrow> is_digit e \<Longrightarrow> is_digit f \<Longrightarrow>
   is_digit g \<Longrightarrow> is_digit h \<Longrightarrow> is_digit k \<Longrightarrow> is_digit j \<Longrightarrow>
   \<not> is_word_at q \<Longrightarrow> \<not> is_word_at (next_char post) \<Longrightarrow>
   rmatch False ssn_re (q, [a, b, c, CHR ''-'', e, f, CHR ''-'', g, h, k, j] @ post) = [(Some j, post)]"
  by (simp add: ssn_re_def rmatch_digit times_n_def digit_is_word chr_eq_def)

lemma rmatch_ssn:
  assumes "ssn_shape x" and "\<not> is_word_at q" and "\<not> is_word_at (next_char post)"
  shows "rmatch False ssn_re (q, x @ post) \<noteq> []"
  using assms(1)
proof (rule ssn_shape_cases)
  fix a b c e f g h k j
  assume x: "x = [a, b, c, CHR ''-'', e, f, CHR ''-'', g, h, k, j]" and
    dg: "is_digit a" "is_digit b" "is_digit c" "is_digit e" "is_digit f"
        "is_digit g" "is_digit h" "is_digit k" "is_digit j"
  have "rmatch False ssn_re (q, [a, b, c, CHR ''-'', e, f, CHR ''-'', g, h, k, j] @ post) = [(Some j, post)]"
    using dg assms(2,3) by (rule rmatch_ssn_explicit)
  then show ?thesis
    unfolding x by (simp only: list.distinct not_False_eq_True)
qed

lemma loop_keeps:
  "set acc \<subseteq> set (fst (analyzeSensitiveData_loop entries text li acc))"
proof (induction entries arbitrary: li acc)
  case Nil
  show ?case by simp
next
  case (Cons entry entries)
  obtain key pattern where e: "entry = (key, pattern)" by (cases entry)
  obtain hit lastIndex where t: "regexp_test pattern (li key) text = (hit, lastIndex)"
    by (cases "regexp_test pattern (li key) text")
  have "set (if hit then acc @ [key] else acc) \<subseteq>
        set (fst (analyzeSensitiveData_loop entries text (li(key := lastIndex))
                    (if hit then acc @ [key] else acc)))"
    by (rule Cons.IH)
  then show ?case
    by (auto simp: e t)
qed

lemma last_before: "pre = [] \<or> \<not> is_word_char (last pre) \<Longrightarrow> \<not> is_word_at (before None pre)"
  by (auto simp: before_def)

lemma hd_next: "post = [] \<or> \<not> is_word_char (hd post) \<Longrightarrow> \<not> is_word_at (next_char post)"
  by (cases post) auto

subsection \<open>The calls of a tick\<close>

lemma recordAnalysis_calls:
  "\<exists>ys. calls (recordAnalysis env st a t) = calls st @ ys \<and> list_all (\<lambda>c. \<not> is_classify c) ys"
  by (simp add: recordAnalysis_def createAlert_def Let_def is_classify_def)

lemma learningTip_calls:
  "\<exists>ys. calls (learningTip env st a m) = calls st @ ys \<and> list_all (\<lambda>c. \<not> is_classify c) ys"
  by (simp add: learningTip_def showNotification_def Let_def is_classify_def)

lemma handleAnalysisResults_calls:
  "\<exists>ys. calls (handleAnalysisResults env st a) = calls st @ ys \<and> list_all (\<lambda>c. \<not> is_classify c) ys"
proof -
  have tip: "\<exists>ys. calls (learningTip env (st\<lparr>lastNotificationTime := now_handle env\<rparr>) a m) =
                  calls st @ ys \<and> list_all (\<lambda>c. \<not> is_classify c) ys" for m
    using learningTip_calls [of env "st\<lparr>lastNotificationTime := now_handle env\<rparr>" a m] by simp
  show ?thesis
    using tip
    by (simp add: handleAnalysisResults_def showNotification_def Let_def is_classify_def
             split: list.splits)
qed

lemma showNotification_stamp:
  "lastNotificationTime (showNotification env st n) = lastNotificationTime st"
  by (simp add: showNotification_def Let_def)

lemma learningTip_stamp:
  "lastNotificationTime (learningTip env st a m) = lastNotificationTime st"
  by (simp add: learningTip_def showNotification_stamp)

lemma recordAnalysis_frame:
  "lastNotificationTime (recordAnalysis env st a t) = lastNotificationTime st"
  "shown (recordAnalysis env st a t) = shown st"
  by (simp_all add: recordAnalysis_def createAlert_def Let_def)

subsection \<open>The claims\<close>

text \<open>
  C1. The risk calculator is the four-tier function of the detected tool and the detected
  types, both as a function on its own (called, as the analyzer calls it, with the flag
  "the list of types is non-empty") and as the risk level of every analysis result: no
  tool gives low whatever the types; with a tool, a type among apiKey, password and ssn
  gives critical even beside financialData, customerData or creditCard; else one of
  those three gives high; else any type gives medium; else low.
\<close>

theorem calculateRiskLevel_is_risk_spec:
  "calculateRiskLevel (length tys > 0) tys tool = risk_spec tool tys \<and>
   riskLevel (fst (analyzeContent li now cap text)) =
     risk_spec (aiToolDetected (fst (analyzeContent li now cap text)))
               (sensitiveDataTypes (fst (analyzeContent li now cap text)))"
proof -
  have a: "calculateRiskLevel (tys' \<noteq> []) tys' tool' = risk_spec tool' tys'" for tys' tool'
    unfolding calculateRiskLevel_def risk_spec_def some_elem_includes by auto
  show ?thesis
    using a by (simp add: analyzeContent_fields analyzeSensitiveData_detected)
qed

text \<open>
  C2, as amended. On a capture of the window "Chrome - claude.ai" whose text is the key
  \<open>key_text\<close> (46 characters after \<open>sk-\<close>), with a fresh analyzer: the window
  classifier answers an AI window of platform Claude, on the empty text as on the key;
  the analysis reports sensitive data, of the single type openaiKey, and the tool claude;
  its first two suggestions are a security and an alternative suggestion; and the
  notification gate answers true whatever the draw.
\<close>

theorem key_scenario:
  "detectAIWindow ''Chrome - claude.ai'' [] =
     \<lparr>isAIWindow = True, platform = Some ''Claude'', url = None, appName = None\<rparr> \<and>
   detectAIWindow ''Chrome - claude.ai'' key_text =
     \<lparr>isAIWindow = True, platform = Some ''Claude'', url = None, appName = None\<rparr> \<and>
   sensitiveDataDetected (fst (analyzeContent fresh now (capture_of ''Chrome - claude.ai'') key_text)) \<and>
   sensitiveDataTypes (fst (analyzeContent fresh now (capture_of ''Chrome - claude.ai'') key_text)) =
     [''openaiKey''] \<and>
   aiToolDetected (fst (analyzeContent fresh now (capture_of ''Chrome - claude.ai'') key_text)) =
     Some ''claude'' \<and>
   map s_type (take 2 (suggestions
       (fst (analyzeContent fresh now (capture_of ''Chrome - claude.ai'') key_text)))) =
     [Security, Alternative] \<and>
   shouldShowNotification (detectAIWindow ''Chrome - claude.ai'' [])
     (fst (analyzeContent fresh now (capture_of ''Chrome - claude.ai'') key_text)) draw"
proof -
  let ?r = "fst (analyzeContent fresh now (capture_of ''Chrome - claude.ai'') key_text)"
  have det: "detected (fst (analyzeSensitiveData fresh key_text))"
    by (simp add: analyzeSensitiveData_detected key_types)
  have "map s_type (take 2 (suggestions ?r)) = [Security, Alternative]"
    unfolding analyzeContent_fields
    by (rule security_suggestions) (simp_all add: det capture_of_def key_tool truthy_def)
  moreover have "shouldShowNotification (detectAIWindow ''Chrome - claude.ai'' []) ?r draw"
    by (simp add: shouldShowNotification_def chrome_window key_analysis)
  ultimately show ?thesis
    by (simp add: chrome_window chrome_window_text key_analysis)
qed

text \<open>
  The claim as stated fails on this input: apiKey is not among the reported types (its
  pattern asks for 48 characters after \<open>sk-\<close>), and the risk level is not critical.
\<close>

theorem key_scenario_counterexample:
  "''apiKey'' \<notin> set (sensitiveDataTypes
      (fst (analyzeContent fresh 0 (capture_of ''Chrome - claude.ai'') key_text))) \<and>
   riskLevel (fst (analyzeContent fresh 0 (capture_of ''Chrome - claude.ai'') key_text)) \<noteq> Critical"
  by (simp add: key_analysis)

text \<open>
  C3, as amended. With the random draw as an input, the notification gate is false off an
  AI window; on one it is true for a critical or high risk and for detected sensitive
  data, whatever the draw; otherwise, for a poor prompt, it is true exactly on a draw
  below 0.33; otherwise, for a fair prompt with a learning opportunity, exactly on a draw
  below 0.2; and false in every other case.
\<close>

theorem shouldShowNotification_thresholds:
  "shouldShowNotification w a draw = shouldNotify_spec 0.33 0.2 w a draw"
  by (cases "promptQuality a") (auto simp: shouldShowNotification_def shouldNotify_spec_def)

text \<open>
  With the probability 1/3 of the claim the gate differs from the code on a draw between
  0.33 and 1/3.
\<close>

theorem gate_one_third_counterexample:
  "\<not> shouldShowNotification claude_tab vague_prompt 0.332 \<and>
   shouldNotify_spec (1 / 3) (1 / 5) claude_tab vague_prompt 0.332"
  by (simp add: shouldShowNotification_def shouldNotify_spec_def claude_tab_def vague_prompt_def)

text \<open>
  C4. The prompt-quality assessor is the priority cascade: excellent as soon as one
  excellent indicator matches; else good when at least two good indicators match and fair
  when exactly one does; else poor when a poor indicator matches; else fair for a text
  longer than 50 characters and poor otherwise. The text "help" is rated poor.
\<close>

theorem analyzePromptQuality_is_cascade:
  "analyzePromptQuality text = assess_spec text \<and> analyzePromptQuality ''help'' = Poor"
proof
  show "analyzePromptQuality text = assess_spec text"
    by (simp add: analyzePromptQuality_def assess_spec_def any_test_iff count_tests_eq Let_def)
  show "analyzePromptQuality ''help'' = Poor"
    by code_simp
qed

text \<open>
  C5 fails on the code. Two successive runs of the sensitive-data detector on the same text,
  on the same analyzer, give different results: the first run on \<open>key_text\<close> reports
  the type openaiKey, the second reports nothing, because the first leaves the global
  pattern's \<open>lastIndex\<close> at the end of the text.
\<close>

theorem analyzeSensitiveData_repeat_differs:
  "fst (analyzeSensitiveData fresh key_text) = \<lparr>detected = True, types = [''openaiKey'']\<rparr> \<and>
   fst (analyzeSensitiveData (snd (analyzeSensitiveData fresh key_text)) key_text) =
     \<lparr>detected = False, types = []\<rparr>"
  by code_simp

lemma tick_unthrottled:
  assumes open_window: "\<not> now_tick env - lastAnalysisTime st < analysisThrottleMs"
  shows "\<exists>zs. calls (analyzeScreenCapture env st cap) =
                calls st @ DetectAIWindow (activeWindow cap) [] # zs \<and>
              list_all (\<lambda>c. \<not> is_classify c) zs \<and>
              (\<not> isAIWindow (detectAIWindow (activeWindow cap) []) \<longrightarrow>
                 zs = [] \<and>
                 ai_usage (analyzeScreenCapture env st cap) = ai_usage st \<and>
                 alerts (analyzeScreenCapture env st cap) = alerts st \<and>
                 dashboard (analyzeScreenCapture env st cap) = dashboard st \<and>
                 shown (analyzeScreenCapture env st cap) = shown st \<and>
                 analyzer (analyzeScreenCapture env st cap) = analyzer st)"
proof -
  let ?w = "activeWindow cap"
  let ?st1 = "st\<lparr>lastAnalysisTime := now_tick env, calls := calls st @ [DetectAIWindow ?w []]\<rparr>"
  let ?st2 = "?st1\<lparr>calls := calls ?st1 @ [ExtractText]\<rparr>"
  have analysed:
    "\<exists>zs. calls (if shouldShowNotification info analysis g \<and>
                    canShowNotification env (recordAnalysis env st3 analysis body)
                 then handleAnalysisResults env (recordAnalysis env st3 analysis body) analysis
                 else recordAnalysis env st3 analysis body) = calls st3 @ zs \<and>
           list_all (\<lambda>c. \<not> is_classify c) zs" for info analysis g st3 body
  proof -
    obtain ys where ys: "calls (recordAnalysis env st3 analysis body) = calls st3 @ ys"
        "list_all (\<lambda>c. \<not> is_classify c) ys"
      using recordAnalysis_calls by blast
    obtain zs where zs:
        "calls (handleAnalysisResults env (recordAnalysis env st3 analysis body) analysis) =
           calls (recordAnalysis env st3 analysis body) @ zs"
        "list_all (\<lambda>c. \<not> is_classify c) zs"
      using handleAnalysisResults_calls by blast
    have shown_case: "\<exists>zs. calls (handleAnalysisResults env (recordAnalysis env st3 analysis body)
                                   analysis) = calls st3 @ zs \<and>
                          list_all (\<lambda>c. \<not> is_classify c) zs"
      using ys zs by (intro exI [of _ "ys @ zs"]) simp
    have quiet_case: "\<exists>zs. calls (recordAnalysis env st3 analysis body) = calls st3 @ zs \<and>
                          list_all (\<lambda>c. \<not> is_classify c) zs"
      using ys by blast
    show ?thesis
    proof (cases "shouldShowNotification info analysis g \<and>
                  canShowNotification env (recordAnalysis env st3 analysis body)")
      case True
      then have "(if shouldShowNotification info analysis g \<and>
                     canShowNotification env (recordAnalysis env st3 analysis body)
                  then handleAnalysisResults env (recordAnalysis env st3 analysis body) analysis
                  else recordAnalysis env st3 analysis body) =
                 handleAnalysisResults env (recordAnalysis env st3 analysis body) analysis"
        by (rule if_P)
      then show ?thesis using shown_case by (simp only:)
    next
      case False
      then have "(if shouldShowNotification info analysis g \<and>
                     canShowNotification env (recordAnalysis env st3 analysis body)
                  then handleAnalysisResults env (recordAnalysis env st3 analysis body) analysis
                  else recordAnalysis env st3 analysis body) =
                 recordAnalysis env st3 analysis body"
        by (rule if_not_P)
      then show ?thesis using quiet_case by (simp only:)
    qed
  qed
  show ?thesis
  proof -
    show ?thesis
    proof (cases "isAIWindow (detectAIWindow ?w [])")
      case False
      with open_window show ?thesis
        by (simp add: analyzeScreenCapture_def Let_def is_classify_def)
    next
      case ai: True
      show ?thesis
      proof (cases "ocr env")
        case OcrThrows
        with open_window ai show ?thesis
          by (simp add: analyzeScreenCapture_def Let_def is_classify_def)
      next
        case (OcrText body)
        show ?thesis
        proof (cases "body = [] \<or> length (trim body) = 0")
          case True
          with open_window ai OcrText show ?thesis
            by (auto simp: analyzeScreenCapture_def Let_def is_classify_def)
        next
          case nonblank: False
          obtain analysis records li where
            ac: "analyzeContent (analyzer ?st2) (now_analysis env) cap body = (analysis, records, li)"
            by (cases "analyzeContent (analyzer ?st2) (now_analysis env) cap body") auto
          let ?st3 = "?st2\<lparr>analyzer := li, dashboard := dashboard ?st2 @ records,
                            calls := calls ?st2 @ [AnalyzeContent body]\<rparr>"
          obtain zs where zs:
            "calls (if shouldShowNotification (detectAIWindow ?w []) analysis (random_gate env) \<and>
                       canShowNotification env (recordAnalysis env ?st3 analysis body)
                    then handleAnalysisResults env (recordAnalysis env ?st3 analysis body) analysis
                    else recordAnalysis env ?st3 analysis body) = calls ?st3 @ zs"
            "list_all (\<lambda>c. \<not> is_classify c) zs"
            using analysed by blast
          have "analyzeScreenCapture env st cap =
                  (if shouldShowNotification (detectAIWindow ?w []) analysis (random_gate env) \<and>
                      canShowNotification env (recordAnalysis env ?st3 analysis body)
                   then handleAnalysisResults env (recordAnalysis env ?st3 analysis body) analysis
                   else recordAnalysis env ?st3 analysis body)"
            using open_window ai OcrText nonblank ac
            by (simp add: analyzeScreenCapture_def Let_def)
          then have "calls (analyzeScreenCapture env st cap) =
                       calls st @ DetectAIWindow ?w [] # ExtractText # AnalyzeContent body # zs"
            using zs(1) by simp
          then show ?thesis
            using ai zs(2) by (simp add: is_classify_def)
        qed
      qed
    qed
  qed
qed

text \<open>
  C6, as amended. A tick inside the analysis throttle (less than 3000 ms after the last
  analysis) leaves the state as it is: it calls nothing, the window classifier included.
  Every other tick first calls the window classifier, once, on the capture's window
  title and the empty text, so any OCR comes after it. When that classification is not
  an AI window, this is the tick's only call: no OCR, no analysis, no insert, and the
  stored usage rows, alerts, dashboard records, shown notifications and analyzer state
  are unchanged. The window "Terminal" is not an AI window on the empty text.
\<close>

theorem tick_gates_on_window:
  "(now_tick env - lastAnalysisTime st < analysisThrottleMs \<longrightarrow>
      analyzeScreenCapture env st cap = st) \<and>
   (\<not> now_tick env - lastAnalysisTime st < analysisThrottleMs \<longrightarrow>
      (\<exists>zs. calls (analyzeScreenCapture env st cap) =
              calls st @ DetectAIWindow (activeWindow cap) [] # zs \<and>
            list_all (\<lambda>c. \<not> is_classify c) zs \<and>
            (\<not> isAIWindow (detectAIWindow (activeWindow cap) []) \<longrightarrow>
               zs = [] \<and>
               ai_usage (analyzeScreenCapture env st cap) = ai_usage st \<and>
               alerts (analyzeScreenCapture env st cap) = alerts st \<and>
               dashboard (analyzeScreenCapture env st cap) = dashboard st \<and>
               shown (analyzeScreenCapture env st cap) = shown st \<and>
               analyzer (analyzeScreenCapture env st cap) = analyzer st))) \<and>
   \<not> isAIWindow (detectAIWindow ''Terminal'' [])"
proof (intro conjI impI)
  assume "now_tick env - lastAnalysisTime st < analysisThrottleMs"
  then show "analyzeScreenCapture env st cap = st"
    by (simp add: analyzeScreenCapture_def Let_def)
next
  assume "\<not> now_tick env - lastAnalysisTime st < analysisThrottleMs"
  then show "\<exists>zs. calls (analyzeScreenCapture env st cap) =
                 calls st @ DetectAIWindow (activeWindow cap) [] # zs \<and>
               list_all (\<lambda>c. \<not> is_classify c) zs \<and>
               (\<not> isAIWindow (detectAIWindow (activeWindow cap) []) \<longrightarrow>
                  zs = [] \<and>
                  ai_usage (analyzeScreenCapture env st cap) = ai_usage st \<and>
                  alerts (analyzeScreenCapture env st cap) = alerts st \<and>
                  dashboard (analyzeScreenCapture env st cap) = dashboard st \<and>
                  shown (analyzeScreenCapture env st cap) = shown st \<and>
                  analyzer (analyzeScreenCapture env st cap) = analyzer st)"
    by (rule tick_unthrottled)
next
  show "\<not> isAIWindow (detectAIWindow ''Terminal'' [])"
    by (simp add: terminal_window not_ai_window_def)
qed

theorem tick_gates_on_window_witness:
  "\<not> now_tick (tick_at 105000 ''ls -la'') - lastAnalysisTime initial < analysisThrottleMs \<and>
   \<not> isAIWindow (detectAIWindow (activeWindow (capture_of ''Terminal'')) []) \<and>
   calls (analyzeScreenCapture (tick_at 105000 ''ls -la'') initial (capture_of ''Terminal'')) =
     [DetectAIWindow ''Terminal'' []] \<and>
   ai_usage (analyzeScreenCapture (tick_at 105000 ''ls -la'') initial (capture_of ''Terminal'')) = [] \<and>
   alerts (analyzeScreenCapture (tick_at 105000 ''ls -la'') initial (capture_of ''Terminal'')) = [] \<and>
   dashboard (analyzeScreenCapture (tick_at 105000 ''ls -la'') initial (capture_of ''Terminal'')) = [] \<and>
   shown (analyzeScreenCapture (tick_at 105000 ''ls -la'') initial (capture_of ''Terminal'')) = [] \<and>
   now_tick (tick_at 1000 ''ls -la'') - lastAnalysisTime initial < analysisThrottleMs \<and>
   analyzeScreenCapture (tick_at 1000 ''ls -la'') initial (capture_of ''Terminal'') = initial"
proof -
  let ?env = "tick_at 105000 ''ls -la''"
  let ?cap = "capture_of ''Terminal''"
  let ?st = "analyzeScreenCapture ?env initial ?cap"
  have w: "activeWindow ?cap = ''Terminal''"
    by (simp add: capture_of_def)
  have passes: "\<not> now_tick ?env - lastAnalysisTime initial < analysisThrottleMs"
    by (simp add: tick_at_def initial_def analysisThrottleMs_def)
  have other: "\<not> isAIWindow (detectAIWindow (activeWindow ?cap) [])"
    by (simp add: w terminal_window not_ai_window_def)
  have early: "now_tick (tick_at 1000 ''ls -la'') - lastAnalysisTime initial < analysisThrottleMs"
    by (simp add: tick_at_def initial_def analysisThrottleMs_def)
  from passes other
  have "calls ?st = calls initial @ [DetectAIWindow ''Terminal'' []] \<and>
        ai_usage ?st = ai_usage initial \<and> alerts ?st = alerts initial \<and>
        dashboard ?st = dashboard initial \<and> shown ?st = shown initial"
    using tick_gates_on_window [of ?env initial ?cap] unfolding w by auto
  moreover from early
  have "analyzeScreenCapture (tick_at 1000 ''ls -la'') initial ?cap = initial"
    using tick_gates_on_window [of "tick_at 1000 ''ls -la''" initial ?cap] by blast
  moreover have "calls initial = []" "ai_usage initial = []" "alerts initial = []"
      "dashboard initial = []" "shown initial = []"
    by (simp_all add: initial_def)
  ultimately show ?thesis
    using passes other early by simp
qed

text \<open>
  The claim as stated fails on a throttled tick: one second after a tick has analysed, a
  capture of "Chrome - claude.ai" is not classified at all.
\<close>

theorem tick_throttled_counterexample:
  "calls (analyzeScreenCapture (tick_at 100000 ''ls -la'') initial (capture_of ''Terminal'')) =
     [DetectAIWindow ''Terminal'' []] \<and>
   calls (analyzeScreenCapture (tick_at 101000 key_text)
            (analyzeScreenCapture (tick_at 100000 ''ls -la'') initial (capture_of ''Terminal''))
            (capture_of ''Chrome - claude.ai'')) =
     [DetectAIWindow ''Terminal'' []]"
proof -
  let ?st1 = "analyzeScreenCapture (tick_at 100000 ''ls -la'') initial (capture_of ''Terminal'')"
  have first: "?st1 = initial\<lparr>lastAnalysisTime := 100000,
                                 calls := [DetectAIWindow ''Terminal'' []]\<rparr>"
    by (simp add: analyzeScreenCapture_def Let_def capture_of_def terminal_window
          not_ai_window_def tick_at_def initial_def analysisThrottleMs_def)
  have second: "analyzeScreenCapture (tick_at 101000 key_text) ?st1
                  (capture_of ''Chrome - claude.ai'') = ?st1"
    unfolding first
    by (simp add: analyzeScreenCapture_def Let_def tick_at_def analysisThrottleMs_def)
  show ?thesis
    unfolding second unfolding first by simp
qed

text \<open>
  C7 fails on the code. Entering the dispatch stage sets the throttle timestamp to the
  current time whatever happens next. On a first tick at time 100000 on the window
  "Chrome - claude.ai" with the text \<open>key_text\<close> and the default preferences, no
  notification is shown, yet the timestamp moves from 0 to 100000, and a tick at time
  105000 is refused by the notification throttle.
\<close>

theorem dispatch_stamps_without_showing:
  "lastNotificationTime (handleAnalysisResults env st analysis) = now_handle env \<and>
   lastNotificationTime initial = 0 \<and>
   shown (analyzeScreenCapture (tick_at 100000 key_text) initial (capture_of ''Chrome - claude.ai'')) = [] \<and>
   lastNotificationTime
     (analyzeScreenCapture (tick_at 100000 key_text) initial (capture_of ''Chrome - claude.ai'')) = 100000 \<and>
   \<not> canShowNotification (tick_at 105000 body)
     (analyzeScreenCapture (tick_at 100000 key_text) initial (capture_of ''Chrome - claude.ai''))"
proof -
  let ?env = "tick_at 100000 key_text"
  let ?cap = "capture_of ''Chrome - claude.ai''"
  let ?st = "analyzeScreenCapture ?env initial ?cap"
  have stamp: "lastNotificationTime (handleAnalysisResults env' st' a) = now_handle env'" for env' st' a
    by (simp add: handleAnalysisResults_def Let_def showNotification_stamp learningTip_stamp
             split: list.splits)
  have w: "activeWindow ?cap = ''Chrome - claude.ai''"
    by (simp add: capture_of_def)
  obtain result records li where
    ac: "analyzeContent fresh 100000 ?cap key_text = (result, records, li)"
    by (cases "analyzeContent fresh 100000 ?cap key_text") auto
  have a: "riskLevel result = Medium" "sensitiveDataDetected result"
      "aiToolDetected result = Some ''claude''"
    using key_analysis [of 100000] by (simp_all add: ac)
  let ?st3 = "initial\<lparr>lastAnalysisTime := 100000,
                       calls := calls initial @ [DetectAIWindow ''Chrome - claude.ai'' []],
                       calls := (calls initial @ [DetectAIWindow ''Chrome - claude.ai'' []]) @ [ExtractText],
                       analyzer := li, dashboard := dashboard initial @ records,
                       calls := ((calls initial @ [DetectAIWindow ''Chrome - claude.ai'' []]) @ [ExtractText])
                                @ [AnalyzeContent key_text]\<rparr>"
  let ?st4 = "recordAnalysis ?env ?st3 result key_text"
  have gate: "shouldShowNotification (detectAIWindow ''Chrome - claude.ai'' []) result (random_gate ?env)"
    by (simp add: shouldShowNotification_def chrome_window a)
  have can: "canShowNotification ?env ?st4"
    by (simp add: canShowNotification_def Let_def recordAnalysis_frame initial_def tick_at_def
          notificationThrottleMs_def defaultSettings_def)
  have run: "?st = handleAnalysisResults ?env ?st4 result"
    using key_trim gate can
    by (simp add: analyzeScreenCapture_def Let_def w chrome_window ac tick_at_def initial_def
          analysisThrottleMs_def)
  have quiet: "shown (handleAnalysisResults ?env ?st4 result) = []"
    by (simp add: handleAnalysisResults_def learningTip_def Let_def a recordAnalysis_frame
          initial_def tick_at_def defaultSettings_def)
  have stamped: "lastNotificationTime ?st = 100000"
    unfolding run by (simp add: stamp tick_at_def)
  have throttled: "\<not> canShowNotification (tick_at 105000 body) ?st"
    by (simp only: canShowNotification_def Let_def stamped)
       (simp add: tick_at_def notificationThrottleMs_def)
  have silent: "shown ?st = []"
    unfolding run by (rule quiet)
  have start: "lastNotificationTime initial = 0"
    by (simp add: initial_def)
  show ?thesis
  proof (intro conjI)
    show "lastNotificationTime (handleAnalysisResults env st analysis) = now_handle env"
      by (rule stamp)
    show "lastNotificationTime initial = 0"
      by (rule start)
    show "shown ?st = []"
      by (rule silent)
    show "lastNotificationTime ?st = 100000"
      by (rule stamped)
    show "\<not> canShowNotification (tick_at 105000 body) ?st"
      by (rule throttled)
  qed
qed

text \<open>
  C8 fails on the code. The sanitizer replaces the first social security number only: the
  second one survives in the output.
\<close>

theorem sanitizer_keeps_second_ssn:
  "fst (sanitizeContentForAlert fresh ''123-45-6789 and 987-65-4321'') =
     ''[SSN_REDACTED] and 987-65-4321''"
  by code_simp

text \<open>
  C9, as amended. For every text that contains a substring of the shape
  \<open>\d{3}-\d{2}-\d{4}\<close> which is neither preceded nor followed by a letter, a digit or
  an underscore, the sensitive-data detector reports sensitive data with ssn among the
  types, whatever the state of the analyzer.
\<close>

theorem ssn_detected_when_delimited:
  assumes "ssn_shape x"
    and "pre = [] \<or> \<not> is_word_char (last pre)"
    and "post = [] \<or> \<not> is_word_char (hd post)"
  shows "detected (fst (analyzeSensitiveData li (pre @ x @ post))) \<and>
         ''ssn'' \<in> set (types (fst (analyzeSensitiveData li (pre @ x @ post))))"
proof -
  let ?text = "pre @ x @ post"
  have "rmatch False ssn_re (before None pre, x @ post) \<noteq> []"
    using assms by (intro rmatch_ssn last_before hd_next)
  then have "search False ssn_re (None, ?text) \<noteq> None"
    by (rule search_finds)
  then have hit: "regexp_test ssn_pattern (li ''ssn'') ?text = (True, li ''ssn'')"
    by (simp add: regexp_test_def ssn_pattern_def rx_def)
  obtain rest where tab: "sensitivePatterns = (''ssn'', ssn_pattern) # rest"
    by (simp add: sensitivePatterns_def)
  have "set [''ssn''] \<subseteq>
        set (fst (analyzeSensitiveData_loop rest ?text (li(''ssn'' := li ''ssn'')) [''ssn'']))"
    by (rule loop_keeps)
  then have "''ssn'' \<in> set (fst (analyzeSensitiveData_loop sensitivePatterns ?text li []))"
    by (simp add: tab hit)
  then show ?thesis
    by (auto simp: analyzeSensitiveData_def split: prod.splits)
qed

theorem ssn_detected_when_delimited_witness:
  "ssn_shape ''123-45-6789'' \<and> \<not> is_word_char (last ''my ssn is '') \<and>
   \<not> is_word_char (hd '' ok'') \<and>
   detected (fst (analyzeSensitiveData fresh (''my ssn is '' @ ''123-45-6789'' @ '' ok''))) \<and>
   ''ssn'' \<in> set (types (fst (analyzeSensitiveData fresh (''my ssn is '' @ ''123-45-6789'' @ '' ok''))))"
proof -
  have s: "ssn_shape ''123-45-6789''" by code_simp
  have p: "\<not> is_word_char (last ''my ssn is '')" by code_simp
  have q: "\<not> is_word_char (hd '' ok'')" by code_simp
  from p have p': "''my ssn is '' = [] \<or> \<not> is_word_char (last ''my ssn is '')" ..
  from q have q': "'' ok'' = [] \<or> \<not> is_word_char (hd '' ok'')" ..
  show ?thesis
    using s p q ssn_detected_when_delimited [OF s p' q', of fresh] by blast
qed

text \<open>
  The claim as stated fails when the shape is glued to a digit before it.
\<close>

theorem ssn_glued_counterexample:
  "ssn_shape ''123-45-6789'' \<and>
   ''ssn'' \<notin> set (types (fst (analyzeSensitiveData fresh (''1'' @ ''123-45-6789'' @ []))))"
  by code_simp

text \<open>
  C10. When the analyzer detects no AI tool, the prompt quality of the result is good,
  whatever the assessor would say of the text: "help", which the assessor rates poor, is
  reported as good under a window that names no tool.
\<close>

theorem no_tool_quality_good:
  "detectAITool (activeWindow cap) text = None \<Longrightarrow>
   promptQuality (fst (analyzeContent li now cap text)) = Good"
  by (simp add: analyzeContent_fields truthy_def)

theorem no_tool_quality_good_witness:
  "detectAITool (activeWindow (capture_of ''Notepad'')) ''help'' = None \<and>
   analyzePromptQuality ''help'' = Poor \<and>
   promptQuality (fst (analyzeContent fresh 0 (capture_of ''Notepad'') ''help'')) = Good"
proof -
  have n: "detectAITool (activeWindow (capture_of ''Notepad'')) ''help'' = None" by code_simp
  have "analyzePromptQuality ''help'' = Poor" by code_simp
  then show ?thesis
    using n no_tool_quality_good [OF n, of fresh 0] by simp
qed

end
